theory Spec2Isabelle
  imports Main "HOL-Library.AList"
begin

section \<open>JavaScript values and objects\<close>

text \<open>
  The backend handles request bodies, DTO instances and DynamoDB items as plain
  JavaScript objects.  An object is modelled as an association list of its own
  enumerable properties in insertion order (the order of \<open>Object.entries\<close>);
  reading a property that is not there gives \<open>undefined\<close>, as in JavaScript.
  The string operations of the runtime are taken from the environment.
\<close>

datatype jsval = JUndefined | JNull | JBool bool | JNum int | JStr string

type_synonym obj = "(string \<times> jsval) list"

definition getprop :: "obj \<Rightarrow> string \<Rightarrow> jsval" where
  "getprop ob k = (case map_of ob k of Some v \<Rightarrow> v | None \<Rightarrow> JUndefined)"

fun truthy :: "jsval \<Rightarrow> bool" where
  "truthy JUndefined = False"
| "truthy JNull = False"
| "truthy (JBool b) = b"
| "truthy (JNum n) = (n \<noteq> 0)"
| "truthy (JStr s) = (s \<noteq> [])"

definition has_property :: "obj \<Rightarrow> string \<Rightarrow> bool" where
  "has_property ob k = (k \<in> fst ` set ob)"

text \<open>The rest pattern \<open>const { passwordHash, ...result } = user\<close>.\<close>

definition omit_passwordHash :: "obj \<Rightarrow> obj" where
  "omit_passwordHash user = AList.delete ''passwordHash'' user"


section \<open>Domain types (user.interface.ts, the DTO classes, the auth interfaces)\<close>

datatype UserRole = USER | ADMIN

fun role_value :: "UserRole \<Rightarrow> string" where
  "role_value USER = ''USER''"
| "role_value ADMIN = ''ADMIN''"

text \<open>
  A DTO instance after the pipe's transformation.  For \<open>firstName\<close>, \<open>lastName\<close> and
  \<open>role\<close> the service only tests truthiness, so \<open>null\<close> and \<open>undefined\<close> are both
  \<open>None\<close>; \<open>avatarUrl\<close> is stored as it comes.
\<close>

record CreateUserDto =
  email :: string
  password :: string
  firstName :: "string option"
  lastName :: "string option"
  role :: "UserRole option"
  avatarUrl :: jsval

record LoginDto =
  login_email :: string
  login_password :: string

record JwtPayload =
  sub :: string
  payload_email :: string
  payload_role :: UserRole
  payload_avatarUrl :: "string option"

record AuthenticatedUser =
  userId :: string
  auth_email :: string
  auth_role :: UserRole
  auth_avatarUrl :: "string option"

text \<open>The property names declared by the DTO classes.\<close>

definition CreateUserDto_keys :: "string list" where
  "CreateUserDto_keys =
     [''email'', ''password'', ''firstName'', ''lastName'', ''role'', ''avatarUrl'']"

definition LoginDto_keys :: "string list" where
  "LoginDto_keys = [''email'', ''password'']"

definition UpdateUserDto_keys :: "string list" where
  "UpdateUserDto_keys =
     [''firstName'', ''lastName'', ''role'', ''isDisabled'', ''password'', ''avatarUrl'']"

definition UpdateProfileDto_keys :: "string list" where
  "UpdateProfileDto_keys = [''firstName'', ''lastName'', ''avatarUrl'']"

section \<open>HTTP exceptions and responses\<close>

datatype http_exception =
    BadRequestException string
  | UnauthorizedException string
  | ForbiddenException string
  | NotFoundException string
  | ConflictException string
  | InternalServerErrorException string

fun getStatus :: "http_exception \<Rightarrow> nat" where
  "getStatus (BadRequestException m) = 400"
| "getStatus (UnauthorizedException m) = 401"
| "getStatus (ForbiddenException m) = 403"
| "getStatus (NotFoundException m) = 404"
| "getStatus (ConflictException m) = 409"
| "getStatus (InternalServerErrorException m) = 500"

fun getMessage :: "http_exception \<Rightarrow> string" where
  "getMessage (BadRequestException m) = m"
| "getMessage (UnauthorizedException m) = m"
| "getMessage (ForbiddenException m) = m"
| "getMessage (NotFoundException m) = m"
| "getMessage (ConflictException m) = m"
| "getMessage (InternalServerErrorException m) = m"

text \<open>
  What the framework sends for a handler: a thrown exception gives its status and
  message; a returned value gives the route's success status with the value as body,
  and a handler that returns \<open>undefined\<close> gives that status with an empty body.
\<close>

datatype 'a http_body = Message string | Body 'a | EmptyBody

datatype 'a http_response = HttpResponse nat "'a http_body"

fun respond :: "nat \<Rightarrow> http_exception + 'a option \<Rightarrow> 'a http_response" where
  "respond ok (Inl ex) = HttpResponse (getStatus ex) (Message (getMessage ex))"
| "respond ok (Inr (Some v)) = HttpResponse ok (Body v)"
| "respond ok (Inr None) = HttpResponse ok EmptyBody"

definition value_result :: "http_exception + 'a \<Rightarrow> http_exception + 'a option" where
  "value_result r = (case r of Inl ex \<Rightarrow> Inl ex | Inr v \<Rightarrow> Inr (Some v))"

text \<open>A handler of type \<open>Promise<void>\<close> returns \<open>undefined\<close>.\<close>

definition void_result :: "http_exception + unit \<Rightarrow> http_exception + obj option" where
  "void_result r = (case r of Inl ex \<Rightarrow> Inl ex | Inr u \<Rightarrow> Inr None)"

section \<open>The key-value table behind the document client\<close>

text \<open>
  The table is the list of its items in scan order, with \<open>userId\<close> as primary key.
  Every \<open>send\<close> either answers or throws; a command kind that the store cannot serve
  throws a service error for it.  An update expression is kept in parsed form, as the
  list of its \<open>SET name = :value\<close> clauses.
\<close>

datatype command = PutCommand | GetCommand | ScanCommand | QueryCommand | UpdateCommand | DeleteCommand

datatype dynamo_error = ConditionalCheckFailedException | ServiceError

record dynamo =
  table :: "obj list"
  unavailable :: "command \<Rightarrow> bool"

definition has_key :: "string \<Rightarrow> obj \<Rightarrow> bool" where
  "has_key k it = (map_of it ''userId'' = Some (JStr k))"

definition get_item :: "obj list \<Rightarrow> string \<Rightarrow> obj option" where
  "get_item tbl k = find (has_key k) tbl"

text \<open>Attributes whose value is \<open>undefined\<close> are not stored.\<close>

definition marshall :: "obj \<Rightarrow> obj" where
  "marshall item = filter (\<lambda>kv. snd kv \<noteq> JUndefined) item"

text \<open>Put with \<open>ConditionExpression: attribute_not_exists(userId)\<close>.\<close>

definition send_put :: "dynamo \<Rightarrow> obj \<Rightarrow> dynamo_error + dynamo" where
  "send_put db item =
     (if unavailable db PutCommand then Inl ServiceError
      else if find (\<lambda>it. map_of it ''userId'' = map_of item ''userId'') (table db) \<noteq> None
        then Inl ConditionalCheckFailedException
      else Inr (db\<lparr>table := table db @ [marshall item]\<rparr>))"

definition send_get :: "dynamo \<Rightarrow> string \<Rightarrow> dynamo_error + obj option" where
  "send_get db k =
     (if unavailable db GetCommand then Inl ServiceError else Inr (get_item (table db) k))"

text \<open>Scan with a projection expression.\<close>

definition send_scan :: "dynamo \<Rightarrow> string list \<Rightarrow> dynamo_error + obj list" where
  "send_scan db attrs =
     (if unavailable db ScanCommand then Inl ServiceError
      else Inr (map (AList.restrict (set attrs)) (table db)))"

text \<open>Query on \<open>EmailIndex\<close> with \<open>email = :email\<close> and \<open>Limit: 1\<close>.\<close>

definition send_query :: "dynamo \<Rightarrow> string \<Rightarrow> dynamo_error + obj list" where
  "send_query db e =
     (if unavailable db QueryCommand then Inl ServiceError
      else Inr (take 1 (filter (\<lambda>it. map_of it ''email'' = Some (JStr e)) (table db))))"

text \<open>
  A name in a clause is an attribute name, or a placeholder that
  \<open>ExpressionAttributeNames\<close> maps to one.
\<close>

definition attribute_name :: "(string \<times> string) list \<Rightarrow> string \<Rightarrow> string" where
  "attribute_name names n = (case map_of names n of Some a \<Rightarrow> a | None \<Rightarrow> n)"

fun apply_set :: "(string \<times> string) list \<Rightarrow> obj \<Rightarrow> (string \<times> string) list \<Rightarrow> obj \<Rightarrow> obj" where
  "apply_set names vals [] it = it"
| "apply_set names vals ((n, vk) # cs) it =
     apply_set names vals cs (AList.update (attribute_name names n) (getprop vals vk) it)"

text \<open>
  Update with \<open>ConditionExpression: attribute_exists(userId)\<close> and
  \<open>ReturnValues: ALL_NEW\<close>.
\<close>

definition send_update ::
  "dynamo \<Rightarrow> string \<Rightarrow> (string \<times> string) list \<Rightarrow> (string \<times> string) list \<Rightarrow> obj
     \<Rightarrow> dynamo_error + dynamo \<times> obj" where
  "send_update db k expr names vals =
     (if unavailable db UpdateCommand then Inl ServiceError
      else case get_item (table db) k of
        None \<Rightarrow> Inl ConditionalCheckFailedException
      | Some it \<Rightarrow>
          Inr (db\<lparr>table := map (\<lambda>x. if has_key k x then apply_set names vals expr x else x) (table db)\<rparr>,
               apply_set names vals expr it))"

text \<open>Delete with \<open>ConditionExpression: attribute_exists(userId)\<close>.\<close>

definition send_delete :: "dynamo \<Rightarrow> string \<Rightarrow> dynamo_error + dynamo" where
  "send_delete db k =
     (if unavailable db DeleteCommand then Inl ServiceError
      else case get_item (table db) k of
        None \<Rightarrow> Inl ConditionalCheckFailedException
      | Some it \<Rightarrow> Inr (db\<lparr>table := filter (\<lambda>x. \<not> has_key k x) (table db)\<rparr>))"

section \<open>What the process takes from outside\<close>

text \<open>
  The generated id, the clock reading, the password hashing primitive, the token signer,
  the string operations of the JavaScript runtime (\<open>toLowerCase\<close>, \<open>length\<close>) and the
  predicates of the validation library are black boxes; each operation receives them in
  an environment, and what is proved for every environment holds for the real ones.
\<close>

record env =
  uuidv4 :: string
  now :: string
  bcrypt_hash :: "string \<Rightarrow> string"
  bcrypt_compare :: "string \<Rightarrow> string \<Rightarrow> bool"
  jwt_sign :: "obj \<Rightarrow> string"
  toLowerCase :: "string \<Rightarrow> string"
  js_length :: "string \<Rightarrow> nat"
  isURL :: "string \<Rightarrow> bool"
  isEmail :: "string \<Rightarrow> bool"
  min_length :: "nat \<Rightarrow> string \<Rightarrow> bool"
  validation_message :: "string list \<Rightarrow> obj \<Rightarrow> string"

section \<open>UsersService (users.service.ts)\<close>

definition findOneById :: "dynamo \<Rightarrow> string \<Rightarrow> obj option" where
  "findOneById db uid = (case send_get db uid of Inr r \<Rightarrow> r | Inl err \<Rightarrow> None)"

definition not_found_msg :: "string \<Rightarrow> string \<Rightarrow> string" where
  "not_found_msg uid tail = ''User with ID '' @ [CHR 0x22] @ uid @ [CHR 0x22] @ tail"

definition findOneByIdOrFail :: "dynamo \<Rightarrow> string \<Rightarrow> http_exception + obj" where
  "findOneByIdOrFail db uid =
     (case findOneById db uid of
        None \<Rightarrow> Inl (NotFoundException (not_found_msg uid '' not found''))
      | Some user \<Rightarrow> Inr user)"

definition findOneByEmail :: "env \<Rightarrow> dynamo \<Rightarrow> string \<Rightarrow> obj option" where
  "findOneByEmail e db em =
     (case send_query db (toLowerCase e em) of
        Inr (x # xs) \<Rightarrow> Some x
      | Inr [] \<Rightarrow> None
      | Inl err \<Rightarrow> None)"

definition userItem :: "env \<Rightarrow> CreateUserDto \<Rightarrow> obj" where
  "userItem e dto =
     [(''userId'', JStr (uuidv4 e)),
      (''email'', JStr (toLowerCase e (email dto))),
      (''passwordHash'', JStr (bcrypt_hash e (password dto))),
      (''firstName'', JStr (case firstName dto of Some s \<Rightarrow> s | None \<Rightarrow> [])),
      (''lastName'', JStr (case lastName dto of Some s \<Rightarrow> s | None \<Rightarrow> [])),
      (''role'', JStr (role_value (case role dto of Some r \<Rightarrow> r | None \<Rightarrow> ADMIN))),
      (''isDisabled'', JBool False),
      (''createdAt'', JStr (now e)),
      (''updatedAt'', JStr (now e)),
      (''avatarUrl'', avatarUrl dto)]"

definition UsersService_create ::
  "env \<Rightarrow> dynamo \<Rightarrow> CreateUserDto \<Rightarrow> (http_exception + obj) \<times> dynamo" where
  "UsersService_create e db dto =
     (if email dto = [] \<or> password dto = []
        then (Inl (BadRequestException ''Email and password are required.''), db)
      else case findOneByEmail e db (email dto) of
        Some existingUser \<Rightarrow> (Inl (ConflictException ''Email already registered.''), db)
      | None \<Rightarrow>
         (case send_put db (userItem e dto) of
            Inr db' \<Rightarrow> (Inr (omit_passwordHash (userItem e dto)), db')
          | Inl ConditionalCheckFailedException \<Rightarrow>
              (Inl (InternalServerErrorException ''Failed to create user due to ID conflict.''), db)
          | Inl ServiceError \<Rightarrow>
              (Inl (InternalServerErrorException ''Could not create user.''), db)))"

definition projection :: "string list" where
  "projection = [''userId'', ''email'', ''firstName'', ''lastName'', ''role'', ''isDisabled'',
                 ''createdAt'', ''updatedAt'', ''avatarUrl'']"

definition UsersService_findAll :: "dynamo \<Rightarrow> http_exception + obj list" where
  "UsersService_findAll db =
     (case send_scan db projection of
        Inr its \<Rightarrow> Inr its
      | Inl err \<Rightarrow> Inl (InternalServerErrorException ''Could not retrieve users.''))"

text \<open>
  The accumulator of the loop over \<open>Object.entries(updateUserDto)\<close>: the clauses of
  \<open>updateExpression\<close>, \<open>expressionAttributeValues\<close> and \<open>expressionAttributeNames\<close>.
\<close>

type_synonym update_acc = "(string \<times> string) list \<times> obj \<times> (string \<times> string) list"

definition update_entry :: "string \<times> jsval \<Rightarrow> update_acc \<Rightarrow> update_acc" where
  "update_entry kv acc =
     (case kv of (key, val) \<Rightarrow> (case acc of (expr, vals, names) \<Rightarrow>
        if key = ''password'' then acc
        else if val \<noteq> JUndefined then
          (let names1 = (if key = ''role'' then AList.update ''#rl'' ''role'' names else names);
               attr1 = (if key = ''role'' then ''#rl'' else key);
               names2 = (if key = ''isDisabled''
                         then AList.update ''#disabled'' ''isDisabled'' names1 else names1);
               attr2 = (if key = ''isDisabled'' then ''#disabled'' else attr1);
               valueKey = '':'' @ key
           in (expr @ [(attr2, valueKey)], AList.update valueKey val vals, names2))
        else acc))"

definition update_init :: "env \<Rightarrow> update_acc" where
  "update_init e = ([(''updatedAt'', '':ua'')], [('':ua'', JStr (now e))], [])"

text \<open>
  The block \<open>if (updateUserDto.password) { ... }\<close>.  A truthy password that is not a
  string has no \<open>length\<close> below 8 and makes the hashing primitive throw, which the
  framework reports as an internal error.
\<close>

definition hash_password :: "env \<Rightarrow> jsval \<Rightarrow> update_acc \<Rightarrow> http_exception + update_acc" where
  "hash_password e pw acc =
     (case acc of (expr, vals, names) \<Rightarrow>
        if \<not> truthy pw then Inr acc
        else (case pw of
          JStr s \<Rightarrow>
            (if js_length e s < 8
               then Inl (BadRequestException ''Password must be at least 8 characters long.'')
             else Inr (expr @ [(''passwordHash'', '':ph'')],
                       AList.update '':ph'' (JStr (bcrypt_hash e s)) vals, names))
        | other \<Rightarrow> Inl (InternalServerErrorException ''Internal server error'')))"

definition UsersService_update ::
  "env \<Rightarrow> dynamo \<Rightarrow> string \<Rightarrow> obj \<Rightarrow> (http_exception + obj) \<times> dynamo" where
  "UsersService_update e db uid dto =
     (case hash_password e (getprop dto ''password'') (fold update_entry dto (update_init e)) of
        Inl ex \<Rightarrow> (Inl ex, db)
      | Inr (expr, vals, names) \<Rightarrow>
          if length vals \<le> 1 \<and> \<not> truthy (getprop dto ''password'') then
            (case findOneByIdOrFail db uid of
               Inl ex \<Rightarrow> (Inl ex, db)
             | Inr currentUser \<Rightarrow> (Inr (omit_passwordHash currentUser), db))
          else
            (case send_update db uid expr names vals of
               Inr (db', attrs) \<Rightarrow> (Inr (omit_passwordHash attrs), db')
             | Inl ConditionalCheckFailedException \<Rightarrow>
                 (Inl (NotFoundException (not_found_msg uid '' not found.'')), db)
             | Inl ServiceError \<Rightarrow>
                 (Inl (InternalServerErrorException ''Could not update user.''), db)))"

definition UsersService_remove :: "dynamo \<Rightarrow> string \<Rightarrow> (http_exception + unit) \<times> dynamo" where
  "UsersService_remove db uid =
     (case send_delete db uid of
        Inr db' \<Rightarrow> (Inr (), db')
      | Inl ConditionalCheckFailedException \<Rightarrow>
          (Inl (NotFoundException (not_found_msg uid '' not found.'')), db)
      | Inl ServiceError \<Rightarrow> (Inl (InternalServerErrorException ''Could not delete user.''), db))"

section \<open>The pipes: ValidationPipe (main.ts) and ParseUUIDPipe\<close>

text \<open>
  The global pipe runs with \<open>whitelist: true\<close> and \<open>transform: true\<close>: properties that
  the DTO class does not declare are stripped, the declared ones are checked against
  their decorators, and a body that fails is answered 400 with the library's messages.
  A property marked \<open>IsOptional\<close> passes when it is \<open>null\<close> or \<open>undefined\<close>.
\<close>

definition whitelist :: "string list \<Rightarrow> obj \<Rightarrow> obj" where
  "whitelist keys body = filter (\<lambda>kv. fst kv \<in> set keys) body"

fun IsOptional :: "(jsval \<Rightarrow> bool) \<Rightarrow> jsval \<Rightarrow> bool" where
  "IsOptional check JUndefined = True"
| "IsOptional check JNull = True"
| "IsOptional check v = check v"

fun IsString :: "jsval \<Rightarrow> bool" where
  "IsString (JStr s) = True"
| "IsString v = False"

fun IsBoolean :: "jsval \<Rightarrow> bool" where
  "IsBoolean (JBool b) = True"
| "IsBoolean v = False"

fun IsNotEmpty :: "jsval \<Rightarrow> bool" where
  "IsNotEmpty JUndefined = False"
| "IsNotEmpty JNull = False"
| "IsNotEmpty (JStr s) = (s \<noteq> [])"
| "IsNotEmpty v = True"

fun IsEnum_UserRole :: "jsval \<Rightarrow> bool" where
  "IsEnum_UserRole (JStr s) = (s = ''USER'' \<or> s = ''ADMIN'')"
| "IsEnum_UserRole v = False"

fun MinLength :: "env \<Rightarrow> nat \<Rightarrow> jsval \<Rightarrow> bool" where
  "MinLength e n (JStr s) = min_length e n s"
| "MinLength e n v = False"

fun IsUrl :: "env \<Rightarrow> jsval \<Rightarrow> bool" where
  "IsUrl e (JStr s) = isURL e s"
| "IsUrl e v = False"

fun IsEmail :: "env \<Rightarrow> jsval \<Rightarrow> bool" where
  "IsEmail e (JStr s) = isEmail e s"
| "IsEmail e v = False"

definition validate_CreateUserDto :: "env \<Rightarrow> obj \<Rightarrow> bool" where
  "validate_CreateUserDto e dto =
     (IsEmail e (getprop dto ''email'') \<and> IsNotEmpty (getprop dto ''email'') \<and>
      IsString (getprop dto ''password'') \<and> MinLength e 8 (getprop dto ''password'') \<and>
      IsNotEmpty (getprop dto ''password'') \<and>
      IsOptional IsString (getprop dto ''firstName'') \<and>
      IsOptional IsString (getprop dto ''lastName'') \<and>
      IsOptional IsEnum_UserRole (getprop dto ''role'') \<and>
      IsOptional (IsUrl e) (getprop dto ''avatarUrl''))"

definition validate_LoginDto :: "env \<Rightarrow> obj \<Rightarrow> bool" where
  "validate_LoginDto e dto =
     (IsEmail e (getprop dto ''email'') \<and> IsNotEmpty (getprop dto ''email'') \<and>
      IsString (getprop dto ''password'') \<and> MinLength e 8 (getprop dto ''password'') \<and>
      IsNotEmpty (getprop dto ''password''))"

definition validate_UpdateProfileDto :: "env \<Rightarrow> obj \<Rightarrow> bool" where
  "validate_UpdateProfileDto e dto =
     (IsOptional IsString (getprop dto ''firstName'') \<and>
      IsOptional IsString (getprop dto ''lastName'') \<and>
      IsOptional (IsUrl e) (getprop dto ''avatarUrl''))"

definition validate_UpdateUserDto :: "env \<Rightarrow> obj \<Rightarrow> bool" where
  "validate_UpdateUserDto e dto =
     (IsOptional IsString (getprop dto ''firstName'') \<and>
      IsOptional IsString (getprop dto ''lastName'') \<and>
      IsOptional IsEnum_UserRole (getprop dto ''role'') \<and>
      IsOptional IsBoolean (getprop dto ''isDisabled'') \<and>
      IsOptional (\<lambda>v. IsString v \<and> MinLength e 8 v) (getprop dto ''password'') \<and>
      IsOptional (IsUrl e) (getprop dto ''avatarUrl''))"

definition ValidationPipe ::
  "env \<Rightarrow> string list \<Rightarrow> (obj \<Rightarrow> bool) \<Rightarrow> obj \<Rightarrow> http_exception + obj" where
  "ValidationPipe e keys valid body =
     (if valid (whitelist keys body) then Inr (whitelist keys body)
      else Inl (BadRequestException (validation_message e keys body)))"

text \<open>The typed instances that the handlers of the auth controller receive.\<close>

fun string_of :: "jsval \<Rightarrow> string" where
  "string_of (JStr s) = s"
| "string_of v = []"

fun optional_string :: "jsval \<Rightarrow> string option" where
  "optional_string (JStr s) = Some s"
| "optional_string v = None"

fun optional_role :: "jsval \<Rightarrow> UserRole option" where
  "optional_role (JStr s) = (if s = ''USER'' then Some USER else if s = ''ADMIN'' then Some ADMIN else None)"
| "optional_role v = None"

definition to_LoginDto :: "obj \<Rightarrow> LoginDto" where
  "to_LoginDto dto =
     \<lparr>login_email = string_of (getprop dto ''email''),
      login_password = string_of (getprop dto ''password'')\<rparr>"

definition to_CreateUserDto :: "obj \<Rightarrow> CreateUserDto" where
  "to_CreateUserDto dto =
     \<lparr>email = string_of (getprop dto ''email''),
      password = string_of (getprop dto ''password''),
      firstName = optional_string (getprop dto ''firstName''),
      lastName = optional_string (getprop dto ''lastName''),
      role = optional_role (getprop dto ''role''),
      avatarUrl = getprop dto ''avatarUrl''\<rparr>"

text \<open>
  \<open>ParseUUIDPipe\<close> on the \<open>:id\<close> parameter accepts the 8-4-4-4-12 hexadecimal form and
  answers 400 for anything else.
\<close>

definition hex_digits :: "string \<Rightarrow> bool" where
  "hex_digits s = list_all (\<lambda>c. c \<in> set ''0123456789abcdefABCDEF'') s"

definition isUUID :: "string \<Rightarrow> bool" where
  "isUUID s =
     (length s = 36 \<and>
      hex_digits (take 8 s) \<and> take 1 (drop 8 s) = ''-'' \<and>
      hex_digits (take 4 (drop 9 s)) \<and> take 1 (drop 13 s) = ''-'' \<and>
      hex_digits (take 4 (drop 14 s)) \<and> take 1 (drop 18 s) = ''-'' \<and>
      hex_digits (take 4 (drop 19 s)) \<and> take 1 (drop 23 s) = ''-'' \<and>
      hex_digits (drop 24 s))"

definition ParseUUIDPipe :: "string \<Rightarrow> http_exception + string" where
  "ParseUUIDPipe v =
     (if isUUID v then Inr v else Inl (BadRequestException ''Validation failed (uuid is expected)''))"

section \<open>JwtStrategy and RolesGuard\<close>

text \<open>
  \<open>validate\<close> is called with the decoded claims once the token's signature and expiry
  have been verified.
\<close>

definition JwtStrategy_validate :: "dynamo \<Rightarrow> JwtPayload \<Rightarrow> http_exception + AuthenticatedUser" where
  "JwtStrategy_validate db payload =
     (case findOneById db (sub payload) of
        None \<Rightarrow> Inl (UnauthorizedException ''User not found or disabled.'')
      | Some user \<Rightarrow>
          if truthy (getprop user ''isDisabled'')
            then Inl (UnauthorizedException ''User not found or disabled.'')
          else Inr \<lparr>userId = sub payload, auth_email = payload_email payload,
                    auth_role = payload_role payload,
                    auth_avatarUrl = payload_avatarUrl payload\<rparr>)"

text \<open>
  \<open>RolesGuard.canActivate\<close>: no roles declared on the route lets every caller pass;
  otherwise the caller's role must be one of the declared roles.
\<close>

definition RolesGuard_canActivate :: "UserRole list option \<Rightarrow> AuthenticatedUser \<Rightarrow> bool" where
  "RolesGuard_canActivate requiredRoles user =
     (case requiredRoles of
        None \<Rightarrow> True
      | Some roles \<Rightarrow> auth_role user \<in> set roles)"

text \<open>
  \<open>@UseGuards(JwtAuthGuard, RolesGuard)\<close> with \<open>@Roles(UserRole.ADMIN)\<close>: the token is
  validated, then the role is checked; a guard that refuses is answered 403.
\<close>

definition admin_guards :: "dynamo \<Rightarrow> JwtPayload \<Rightarrow> http_exception + AuthenticatedUser" where
  "admin_guards db token =
     (case JwtStrategy_validate db token of
        Inl ex \<Rightarrow> Inl ex
      | Inr user \<Rightarrow>
          if RolesGuard_canActivate (Some [ADMIN]) user then Inr user
          else Inl (ForbiddenException ''Forbidden resource''))"

section \<open>UsersController (users.controller.ts)\<close>

definition UsersController_getProfile :: "dynamo \<Rightarrow> AuthenticatedUser \<Rightarrow> http_exception + obj" where
  "UsersController_getProfile db req_user =
     (case findOneByIdOrFail db (userId req_user) of
        Inl ex \<Rightarrow> Inl ex
      | Inr user \<Rightarrow> Inr (omit_passwordHash user))"

definition UsersController_updateOwnProfile ::
  "env \<Rightarrow> dynamo \<Rightarrow> AuthenticatedUser \<Rightarrow> obj \<Rightarrow> (http_exception + obj) \<times> dynamo" where
  "UsersController_updateOwnProfile e db req_user updateProfileDto =
     UsersService_update e db (userId req_user) updateProfileDto"

definition UsersController_create ::
  "env \<Rightarrow> dynamo \<Rightarrow> CreateUserDto \<Rightarrow> (http_exception + obj) \<times> dynamo" where
  "UsersController_create e db createUserDto = UsersService_create e db createUserDto"

definition UsersController_findAll :: "dynamo \<Rightarrow> http_exception + obj list" where
  "UsersController_findAll db = UsersService_findAll db"

definition UsersController_findOne :: "dynamo \<Rightarrow> string \<Rightarrow> http_exception + obj" where
  "UsersController_findOne db uid =
     (case ParseUUIDPipe uid of
        Inl ex \<Rightarrow> Inl ex
      | Inr i \<Rightarrow>
          (case findOneByIdOrFail db i of
             Inl ex \<Rightarrow> Inl ex
           | Inr user \<Rightarrow> Inr (omit_passwordHash user)))"

definition UsersController_update ::
  "env \<Rightarrow> dynamo \<Rightarrow> string \<Rightarrow> obj \<Rightarrow> AuthenticatedUser \<Rightarrow> (http_exception + obj) \<times> dynamo" where
  "UsersController_update e db uid updateUserDto req_user =
     (case ParseUUIDPipe uid of
        Inl ex \<Rightarrow> (Inl ex, db)
      | Inr i \<Rightarrow>
          if i = userId req_user \<and>
             (getprop updateUserDto ''role'' \<noteq> JStr ''ADMIN'' \<or>
              truthy (getprop updateUserDto ''isDisabled''))
            then (Inl (ForbiddenException
                    ''Admins cannot change their own role or disable themselves.''), db)
          else UsersService_update e db i updateUserDto)"

definition UsersController_remove ::
  "dynamo \<Rightarrow> string \<Rightarrow> AuthenticatedUser \<Rightarrow> (http_exception + unit) \<times> dynamo" where
  "UsersController_remove db uid req_user =
     (case ParseUUIDPipe uid of
        Inl ex \<Rightarrow> (Inl ex, db)
      | Inr i \<Rightarrow>
          if i = userId req_user
            then (Inl (ForbiddenException ''Admins cannot delete their own account.''), db)
          else UsersService_remove db i)"

section \<open>AuthService and AuthController\<close>

text \<open>
  \<open>bcrypt.compare\<close> throws when the stored hash is not a string; nothing catches that,
  and the framework reports an internal error.
\<close>

definition AuthService_validateUser ::
  "env \<Rightarrow> dynamo \<Rightarrow> string \<Rightarrow> string \<Rightarrow> http_exception + obj option" where
  "AuthService_validateUser e db em pass =
     (case findOneByEmail e db em of
        None \<Rightarrow> Inr None
      | Some user \<Rightarrow>
          if truthy (getprop user ''isDisabled'')
            then Inl (UnauthorizedException ''Account has been disabled. Try again later.'')
          else (case getprop user ''passwordHash'' of
                  JStr h \<Rightarrow>
                    (if bcrypt_compare e pass h then Inr (Some (omit_passwordHash user))
                     else Inr None)
                | other \<Rightarrow> Inl (InternalServerErrorException ''Internal server error'')))"

definition jwt_claims :: "obj \<Rightarrow> obj" where
  "jwt_claims user =
     [(''email'', getprop user ''email''),
      (''sub'', getprop user ''userId''),
      (''role'', getprop user ''role''),
      (''avatarUrl'', (if truthy (getprop user ''avatarUrl'') then getprop user ''avatarUrl''
                       else JNull))]"

definition AuthService_login :: "env \<Rightarrow> obj \<Rightarrow> http_exception + obj" where
  "AuthService_login e user =
     (if \<not> truthy (getprop user ''userId'') \<or> \<not> truthy (getprop user ''email'') \<or>
         \<not> truthy (getprop user ''role'')
        then Inl (InternalServerErrorException ''Cannot generate token due to invalid user data.'')
      else Inr [(''access_token'', JStr (jwt_sign e (jwt_claims user)))])"

text \<open>\<open>AuthService.register\<close> logs a failure of \<open>create\<close> and throws it again.\<close>

definition AuthService_register ::
  "env \<Rightarrow> dynamo \<Rightarrow> CreateUserDto \<Rightarrow> (http_exception + obj) \<times> dynamo" where
  "AuthService_register e db createUserDto =
     (case UsersService_create e db createUserDto of
        (Inr newUser, db') \<Rightarrow> (Inr newUser, db')
      | (Inl error, db') \<Rightarrow> (Inl error, db'))"

definition AuthController_login :: "env \<Rightarrow> dynamo \<Rightarrow> LoginDto \<Rightarrow> http_exception + obj" where
  "AuthController_login e db loginDto =
     (case AuthService_validateUser e db (login_email loginDto) (login_password loginDto) of
        Inl ex \<Rightarrow> Inl ex
      | Inr None \<Rightarrow> Inl (UnauthorizedException ''Invalid credentials'')
      | Inr (Some validatedUser) \<Rightarrow> AuthService_login e validatedUser)"

text \<open>
  The handler's \<open>catch\<close> throws a conflict or a bad request again; for any other error
  it runs to its end and the handler returns \<open>undefined\<close>.
\<close>

definition AuthController_register ::
  "env \<Rightarrow> dynamo \<Rightarrow> CreateUserDto \<Rightarrow> (http_exception + obj option) \<times> dynamo" where
  "AuthController_register e db createUserDto =
     (case AuthService_register e db createUserDto of
        (Inr newUser, db') \<Rightarrow> (Inr (Some newUser), db')
      | (Inl error, db') \<Rightarrow>
          (case error of
             ConflictException m \<Rightarrow> (Inl error, db')
           | BadRequestException m \<Rightarrow> (Inl error, db')
           | other \<Rightarrow> (Inr None, db')))"

section \<open>The routes as a client reaches them\<close>

text \<open>
  Guards run first, then the pipes, then the handler.  A request whose body and \<open>:id\<close>
  are both malformed is answered 400 either way; the routes below report the body's
  error.  The caller presents the decoded claims of a token whose signature and expiry
  have been verified.
\<close>

definition POST_auth_login :: "env \<Rightarrow> dynamo \<Rightarrow> obj \<Rightarrow> http_exception + obj" where
  "POST_auth_login e db body =
     (case ValidationPipe e LoginDto_keys (validate_LoginDto e) body of
        Inl ex \<Rightarrow> Inl ex
      | Inr dto \<Rightarrow> AuthController_login e db (to_LoginDto dto))"


definition PATCH_users_profile ::
  "env \<Rightarrow> dynamo \<Rightarrow> JwtPayload \<Rightarrow> obj \<Rightarrow> (http_exception + obj) \<times> dynamo" where
  "PATCH_users_profile e db token body =
     (case JwtStrategy_validate db token of
        Inl ex \<Rightarrow> (Inl ex, db)
      | Inr req_user \<Rightarrow>
          (case ValidationPipe e UpdateProfileDto_keys (validate_UpdateProfileDto e) body of
             Inl ex \<Rightarrow> (Inl ex, db)
           | Inr dto \<Rightarrow> UsersController_updateOwnProfile e db req_user dto))"

definition PATCH_users_id ::
  "env \<Rightarrow> dynamo \<Rightarrow> JwtPayload \<Rightarrow> string \<Rightarrow> obj \<Rightarrow> (http_exception + obj) \<times> dynamo" where
  "PATCH_users_id e db token uid body =
     (case admin_guards db token of
        Inl ex \<Rightarrow> (Inl ex, db)
      | Inr req_user \<Rightarrow>
          (case ValidationPipe e UpdateUserDto_keys (validate_UpdateUserDto e) body of
             Inl ex \<Rightarrow> (Inl ex, db)
           | Inr dto \<Rightarrow> UsersController_update e db uid dto req_user))"

definition DELETE_users_id ::
  "dynamo \<Rightarrow> JwtPayload \<Rightarrow> string \<Rightarrow> (http_exception + unit) \<times> dynamo" where
  "DELETE_users_id db token uid =
     (case admin_guards db token of
        Inl ex \<Rightarrow> (Inl ex, db)
      | Inr req_user \<Rightarrow> UsersController_remove db uid req_user)"

section \<open>Predicates on payloads and on the table\<close>

text \<open>
  A payload carries an update when the loop of \<open>UsersService.update\<close> finds a property
  to write or the password is truthy.
\<close>

definition applied_entry :: "string \<times> jsval \<Rightarrow> bool" where
  "applied_entry kv = (fst kv \<noteq> ''password'' \<and> snd kv \<noteq> JUndefined)"

text \<open>The clause that the loop appends for a property it writes.\<close>

definition placeholder :: "string \<Rightarrow> string" where
  "placeholder k =
     (if k = ''isDisabled'' then ''#disabled'' else if k = ''role'' then ''#rl'' else k)"

definition clause_of :: "string \<times> jsval \<Rightarrow> string \<times> string" where
  "clause_of kv = (placeholder (fst kv), '':'' @ fst kv)"

definition carries_update :: "obj \<Rightarrow> bool" where
  "carries_update dto = (list_ex applied_entry dto \<or> truthy (getprop dto ''password''))"



section \<open>Stored records, tokens and requests used in the examples\<close>

text \<open>
  An example runtime for ASCII strings: \<open>toLowerCase\<close> maps the letters A to Z,
  \<open>length\<close> counts characters, the hash of a password is the password behind a sharp.
\<close>

definition lower_char :: "char \<Rightarrow> char" where
  "lower_char c =
     (case map_of (zip ''ABCDEFGHIJKLMNOPQRSTUVWXYZ'' ''abcdefghijklmnopqrstuvwxyz'') c of
        Some l \<Rightarrow> l
      | None \<Rightarrow> c)"

definition ascii_lower :: "string \<Rightarrow> string" where
  "ascii_lower s = map lower_char s"

definition ann_id :: string where "ann_id = ''a1a1a1a1-0000-4000-8000-000000000001''"
definition bob_id :: string where "bob_id = ''b2b2b2b2-0000-4000-8000-000000000002''"
definition cyd_id :: string where "cyd_id = ''c3c3c3c3-0000-4000-8000-000000000003''"
definition zed_id :: string where "zed_id = ''d4d4d4d4-0000-4000-8000-000000000009''"

definition env0 :: env where
  "env0 = \<lparr>uuidv4 = cyd_id, now = ''t1'', bcrypt_hash = (\<lambda>p. ''#'' @ p),
           bcrypt_compare = (\<lambda>p h. h = ''#'' @ p), jwt_sign = (\<lambda>p. ''jwt''),
           toLowerCase = ascii_lower, js_length = length,
           isURL = (\<lambda>u. take 8 u = ''https://''), isEmail = (\<lambda>s. CHR ''@'' \<in> set s),
           min_length = (\<lambda>n s. n \<le> length s),
           validation_message = (\<lambda>keys body. ''Bad Request'')\<rparr>"

definition ann :: obj where
  "ann = [(''userId'', JStr ann_id), (''email'', JStr ''ann@x.io''),
          (''passwordHash'', JStr ''#secret-ann''), (''firstName'', JStr ''Ann''),
          (''lastName'', JStr ''Lee''), (''role'', JStr ''ADMIN''), (''isDisabled'', JBool False),
          (''createdAt'', JStr ''t0''), (''updatedAt'', JStr ''t0'')]"

definition bob :: obj where
  "bob = [(''userId'', JStr bob_id), (''email'', JStr ''bob@x.io''),
          (''passwordHash'', JStr ''#secret-bob''), (''firstName'', JStr ''Bob''),
          (''lastName'', JStr ''Ray''), (''role'', JStr ''USER''), (''isDisabled'', JBool True),
          (''createdAt'', JStr ''t0''), (''updatedAt'', JStr ''t0'')]"

definition db0 :: dynamo where
  "db0 = \<lparr>table = [ann, bob], unavailable = (\<lambda>c. False)\<rparr>"

definition ann_admin :: AuthenticatedUser where
  "ann_admin = \<lparr>userId = ann_id, auth_email = ''ann@x.io'', auth_role = ADMIN,
                auth_avatarUrl = None\<rparr>"

definition ann_token :: JwtPayload where
  "ann_token = \<lparr>sub = ann_id, payload_email = ''ann@x.io'', payload_role = ADMIN,
                payload_avatarUrl = None\<rparr>"

definition bob_token :: JwtPayload where
  "bob_token = \<lparr>sub = bob_id, payload_email = ''bob@x.io'', payload_role = USER,
                payload_avatarUrl = None\<rparr>"

definition zed_token :: JwtPayload where
  "zed_token = \<lparr>sub = zed_id, payload_email = ''zed@x.io'', payload_role = USER,
                payload_avatarUrl = None\<rparr>"

definition db_put_down :: dynamo where
  "db_put_down = \<lparr>table = [ann, bob], unavailable = (\<lambda>c. c = PutCommand)\<rparr>"

definition db_query_down :: dynamo where
  "db_query_down = \<lparr>table = [ann, bob], unavailable = (\<lambda>c. c = QueryCommand)\<rparr>"

definition db_delete_down :: dynamo where
  "db_delete_down = \<lparr>table = [ann, bob], unavailable = (\<lambda>c. c = DeleteCommand)\<rparr>"

definition cyd_dto :: CreateUserDto where
  "cyd_dto = \<lparr>email = ''Cyd@X.io'', password = ''secret-cyd'', firstName = Some ''Cyd'',
              lastName = None, role = None, avatarUrl = JStr ''https://x.io/cyd.png''\<rparr>"

definition ann_again :: obj where
  "ann_again = [(''email'', JStr ''ANN@x.io''), (''password'', JStr ''secret-two''),
                (''role'', JStr ''USER''), (''avatarUrl'', JStr ''https://x.io/ann.png'')]"

section \<open>Evaluation on the example store\<close>

lemma example_ids:
  "ann_id \<noteq> bob_id" "ann_id \<noteq> cyd_id" "ann_id \<noteq> zed_id"
  "bob_id \<noteq> ann_id" "bob_id \<noteq> cyd_id" "bob_id \<noteq> zed_id"
  "cyd_id \<noteq> ann_id" "cyd_id \<noteq> bob_id" "cyd_id \<noteq> zed_id"
  "zed_id \<noteq> ann_id" "zed_id \<noteq> bob_id" "zed_id \<noteq> cyd_id"
  "ann_id \<noteq> []" "bob_id \<noteq> []" "cyd_id \<noteq> []" "zed_id \<noteq> []"
  by (simp_all add: ann_id_def bob_id_def cyd_id_def zed_id_def)

lemma example_uuids: "isUUID ann_id" "isUUID bob_id" "isUUID cyd_id" "isUUID zed_id"
  by (simp_all add: isUUID_def hex_digits_def ann_id_def bob_id_def cyd_id_def zed_id_def)

lemmas example_defs = env0_def db0_def ann_def bob_def ann_admin_def ann_token_def bob_token_def
  zed_token_def db_put_down_def db_query_down_def db_delete_down_def cyd_dto_def ann_again_def
  ascii_lower_def lower_char_def example_ids example_uuids

lemmas store_defs = send_put_def send_get_def send_scan_def send_query_def send_update_def
  send_delete_def get_item_def has_key_def marshall_def attribute_name_def getprop_def

lemmas service_defs = findOneById_def findOneByIdOrFail_def findOneByEmail_def userItem_def
  UsersService_create_def UsersService_findAll_def projection_def update_entry_def
  update_init_def hash_password_def UsersService_update_def UsersService_remove_def
  omit_passwordHash_def

lemmas pipe_defs = ValidationPipe_def whitelist_def ParseUUIDPipe_def validate_LoginDto_def
  validate_CreateUserDto_def validate_UpdateUserDto_def validate_UpdateProfileDto_def
  CreateUserDto_keys_def LoginDto_keys_def UpdateUserDto_keys_def UpdateProfileDto_keys_def
  to_LoginDto_def to_CreateUserDto_def

lemmas guard_defs = JwtStrategy_validate_def RolesGuard_canActivate_def admin_guards_def

section \<open>Facts about the table\<close>

lemma omit_passwordHash_keys: "''passwordHash'' \<notin> fst ` set (omit_passwordHash u)"
  unfolding omit_passwordHash_def by (rule AList.delete_notin_dom)

lemma omit_no_hash: "\<not> has_property (omit_passwordHash u) ''passwordHash''"
  unfolding has_property_def by (rule omit_passwordHash_keys)

lemma projection_no_hash:
  assumes "u \<in> set (map (AList.restrict (set projection)) tbl)"
  shows "\<not> has_property u ''passwordHash''"
proof -
  from assms obtain it where "u = AList.restrict (set projection) it" by auto
  then have "fst ` set u = fst ` set it \<inter> set projection" by simp
  moreover have "''passwordHash'' \<notin> set projection" by (simp add: projection_def)
  ultimately show ?thesis unfolding has_property_def by blast
qed

lemma has_key_inj: "has_key k x \<Longrightarrow> has_key k' x \<Longrightarrow> k = k'"
  by (simp add: has_key_def)

lemma get_item_filter_other:
  "k \<noteq> uid \<Longrightarrow> get_item (filter (\<lambda>x. \<not> has_key uid x) tbl) k = get_item tbl k"
  unfolding get_item_def
  by (induction tbl) (auto dest: has_key_inj)

lemma get_item_filter_same: "get_item (filter (\<lambda>x. \<not> has_key uid x) tbl) uid = None"
  unfolding get_item_def by (induction tbl) auto

lemma get_item_map:
  assumes "\<And>x. has_key k x \<Longrightarrow> has_key k (f x)"
  shows "get_item (map (\<lambda>x. if has_key k x then f x else x) tbl) k = map_option f (get_item tbl k)"
  unfolding get_item_def using assms by (induction tbl) auto

lemma get_item_map_other:
  assumes "k' \<noteq> k" and "\<And>x. map_of (f x) ''userId'' = map_of x ''userId''"
  shows "get_item (map (\<lambda>x. if has_key k x then f x else x) tbl) k' = get_item tbl k'"
proof -
  have "\<And>x. has_key k' (if has_key k x then f x else x) = has_key k' x"
    using assms by (simp add: has_key_def)
  moreover have "\<And>x. has_key k' x \<Longrightarrow> (if has_key k x then f x else x) = x"
    using assms(1) by (auto dest: has_key_inj)
  ultimately show ?thesis
    unfolding get_item_def by (induction tbl) auto
qed


section \<open>Creation\<close>

text \<open>
  C1. A request without a role field is stored with role \<open>ADMIN\<close>, not \<open>USER\<close>: the
  record that \<open>UsersService.create\<close> writes for such a request, read back by its id,
  carries \<open>role = ADMIN\<close>, and so does the returned object.
\<close>

theorem create_without_role_stores_ADMIN:
  "role cyd_dto = None \<and>
   (case UsersService_create env0 db0 cyd_dto of
      (Inr created, db') \<Rightarrow>
         getprop created ''role'' = JStr ''ADMIN'' \<and>
         map_option (\<lambda>u. getprop u ''role'') (findOneById db' (uuidv4 env0)) = Some (JStr ''ADMIN'')
    | (Inl ex, db') \<Rightarrow> False)"
  by (simp add: example_defs store_defs service_defs)


section \<open>Re-checking the live record on every authenticated request\<close>

text \<open>
  C5. \<open>JwtStrategy.validate\<close> fetches the record named by the token's \<open>sub\<close> claim and
  throws the authentication error when the table has no such record or the record has
  \<open>isDisabled\<close> set.  Hence, once an update has set \<open>isDisabled\<close> on an account, the next
  request with a token of that account is rejected.
\<close>

theorem jwt_validate_rechecks_live_record:
  "(get_item (table db) (sub payload) = None \<longrightarrow>
      JwtStrategy_validate db payload =
        Inl (UnauthorizedException ''User not found or disabled.'')) \<and>
   (\<forall>user. get_item (table db) (sub payload) = Some user \<and> truthy (getprop user ''isDisabled'') \<longrightarrow>
      JwtStrategy_validate db payload =
        Inl (UnauthorizedException ''User not found or disabled.'')) \<and>
   (\<forall>r db'. UsersService_update e db (sub payload) [(''isDisabled'', JBool True)] = (Inr r, db') \<longrightarrow>
      JwtStrategy_validate db' payload =
        Inl (UnauthorizedException ''User not found or disabled.''))"
proof (intro conjI allI impI)
  assume "get_item (table db) (sub payload) = None"
  then show "JwtStrategy_validate db payload =
      Inl (UnauthorizedException ''User not found or disabled.'')"
    by (simp add: JwtStrategy_validate_def findOneById_def send_get_def)
next
  fix user
  assume "get_item (table db) (sub payload) = Some user \<and> truthy (getprop user ''isDisabled'')"
  then show "JwtStrategy_validate db payload =
      Inl (UnauthorizedException ''User not found or disabled.'')"
    by (simp add: JwtStrategy_validate_def findOneById_def send_get_def)
next
  fix r db'
  let ?f = "\<lambda>x. AList.update ''isDisabled'' (JBool True)
                 (AList.update ''updatedAt'' (JStr (now e)) x)"
  assume upd: "UsersService_update e db (sub payload) [(''isDisabled'', JBool True)] = (Inr r, db')"
  have key: "\<And>x. has_key (sub payload) (?f x) = has_key (sub payload) x"
    by (simp add: has_key_def AList.update_conv')
  from upd have tbl: "table db' = map (\<lambda>x. if has_key (sub payload) x then ?f x else x) (table db)"
    and ex: "get_item (table db) (sub payload) \<noteq> None"
    by (auto simp: UsersService_update_def update_entry_def update_init_def hash_password_def
        getprop_def send_update_def attribute_name_def Let_def split: if_splits option.splits)
  have "get_item (table db') (sub payload) = map_option ?f (get_item (table db) (sub payload))"
    unfolding tbl by (rule get_item_map) (simp add: key)
  with ex obtain it where "get_item (table db') (sub payload) = Some (?f it)" by auto
  then show "JwtStrategy_validate db' payload =
      Inl (UnauthorizedException ''User not found or disabled.'')"
    by (simp add: JwtStrategy_validate_def findOneById_def send_get_def getprop_def
        AList.update_conv')
qed

theorem jwt_validate_rechecks_live_record_witness:
  "get_item (table db0) (sub zed_token) = None \<and>
   JwtStrategy_validate db0 zed_token = Inl (UnauthorizedException ''User not found or disabled.'') \<and>
   get_item (table db0) (sub bob_token) = Some bob \<and> truthy (getprop bob ''isDisabled'') \<and>
   JwtStrategy_validate db0 bob_token = Inl (UnauthorizedException ''User not found or disabled.'') \<and>
   JwtStrategy_validate db0 ann_token = Inr ann_admin \<and>
   (\<exists>r. fst (UsersService_update env0 db0 (sub ann_token) [(''isDisabled'', JBool True)]) = Inr r) \<and>
   JwtStrategy_validate
     (snd (UsersService_update env0 db0 (sub ann_token) [(''isDisabled'', JBool True)])) ann_token =
     Inl (UnauthorizedException ''User not found or disabled.'')"
proof -
  have computed: ?thesis
    by (simp add: example_defs store_defs service_defs JwtStrategy_validate_def Let_def)
  from jwt_validate_rechecks_live_record [where db = db0 and payload = zed_token and e = env0]
    jwt_validate_rechecks_live_record [where db = db0 and payload = bob_token and e = env0]
    jwt_validate_rechecks_live_record [where db = db0 and payload = ann_token and e = env0]
    computed
  show ?thesis by simp
qed


section \<open>No result carries the password hash\<close>

lemma create_result_omits:
  assumes "UsersService_create e db dto = (Inr u, db')"
  shows "u = omit_passwordHash (userItem e dto)"
proof (cases "email dto = [] \<or> password dto = []")
  case True
  with assms show ?thesis by (simp add: UsersService_create_def)
next
  case False
  show ?thesis
  proof (cases "findOneByEmail e db (email dto)")
    case (Some a)
    with assms False show ?thesis by (simp add: UsersService_create_def)
  next
    case None
    show ?thesis
    proof (cases "send_put db (userItem e dto)")
      case (Inl err)
      with assms False None show ?thesis
        by (cases err) (simp_all add: UsersService_create_def)
    next
      case (Inr db2)
      with assms False None show ?thesis
        by (simp add: UsersService_create_def)
    qed
  qed
qed

lemma update_result_omits:
  assumes "UsersService_update e db uid dto = (Inr u, db')"
  shows "\<exists>x. u = omit_passwordHash x"
proof (cases "hash_password e (getprop dto ''password'') (fold update_entry dto (update_init e))")
  case (Inl ex)
  with assms show ?thesis by (simp add: UsersService_update_def)
next
  case hashed: (Inr acc)
  obtain expr vals names where acc: "acc = (expr, vals, names)" by (cases acc) auto
  show ?thesis
  proof (cases "length vals \<le> 1 \<and> \<not> truthy (getprop dto ''password'')")
    case True
    with assms hashed acc show ?thesis
      by (cases "findOneByIdOrFail db uid") (auto simp: UsersService_update_def)
  next
    case False
    show ?thesis
    proof (cases "send_update db uid expr names vals")
      case (Inl err)
      with assms hashed acc False show ?thesis
        by (cases err) (auto simp: UsersService_update_def)
    next
      case (Inr res)
      with assms hashed acc False show ?thesis
        by (cases res) (auto simp: UsersService_update_def)
    qed
  qed
qed

lemma validateUser_result_omits:
  assumes "AuthService_validateUser e db em pass = Inr (Some u)"
  shows "\<exists>x. u = omit_passwordHash x"
proof (cases "findOneByEmail e db em")
  case None
  with assms show ?thesis by (simp add: AuthService_validateUser_def)
next
  case (Some user)
  with assms show ?thesis
    by (cases "getprop user ''passwordHash''")
       (auto simp: AuthService_validateUser_def split: if_splits)
qed

text \<open>
  C4. No result carries a \<open>passwordHash\<close> property: not the items of GET /users, not the
  results of GET /users/:id and GET /users/profile, not the results of create and
  update, not the user that credential validation returns, not the login result.
\<close>

theorem passwordHash_never_returned:
  "(\<forall>us. UsersController_findAll db = Inr us \<longrightarrow> (\<forall>u\<in>set us. \<not> has_property u ''passwordHash'')) \<and>
   (\<forall>u. UsersController_findOne db uid = Inr u \<longrightarrow> \<not> has_property u ''passwordHash'') \<and>
   (\<forall>u. UsersController_getProfile db req_user = Inr u \<longrightarrow> \<not> has_property u ''passwordHash'') \<and>
   (\<forall>u db'. UsersService_create e db createUserDto = (Inr u, db') \<longrightarrow>
       \<not> has_property u ''passwordHash'') \<and>
   (\<forall>u db'. UsersService_update e db uid updateUserDto = (Inr u, db') \<longrightarrow>
       \<not> has_property u ''passwordHash'') \<and>
   (\<forall>u. AuthService_validateUser e db em pass = Inr (Some u) \<longrightarrow> \<not> has_property u ''passwordHash'') \<and>
   (\<forall>r. AuthController_login e db loginDto = Inr r \<longrightarrow> \<not> has_property r ''passwordHash'')"
proof (intro conjI allI impI)
  fix us assume "UsersController_findAll db = Inr us"
  then have "us = map (AList.restrict (set projection)) (table db)"
    by (simp add: UsersController_findAll_def UsersService_findAll_def send_scan_def
        split: if_splits)
  then show "\<forall>u\<in>set us. \<not> has_property u ''passwordHash''"
    using projection_no_hash [of _ "table db"] by simp
next
  fix u assume "UsersController_findOne db uid = Inr u"
  then have "\<exists>x. u = omit_passwordHash x"
    by (cases "findOneByIdOrFail db uid")
       (auto simp: UsersController_findOne_def ParseUUIDPipe_def split: if_splits)
  then show "\<not> has_property u ''passwordHash''"
    by (auto simp: omit_no_hash)
next
  fix u assume "UsersController_getProfile db req_user = Inr u"
  then have "\<exists>x. u = omit_passwordHash x"
    by (cases "findOneByIdOrFail db (userId req_user)") (auto simp: UsersController_getProfile_def)
  then show "\<not> has_property u ''passwordHash''"
    by (auto simp: omit_no_hash)
next
  fix u db' assume "UsersService_create e db createUserDto = (Inr u, db')"
  then have "u = omit_passwordHash (userItem e createUserDto)"
    by (rule create_result_omits)
  then show "\<not> has_property u ''passwordHash''"
    by (simp add: omit_no_hash)
next
  fix u db' assume "UsersService_update e db uid updateUserDto = (Inr u, db')"
  then have "\<exists>x. u = omit_passwordHash x"
    by (rule update_result_omits)
  then show "\<not> has_property u ''passwordHash''"
    by (auto simp: omit_no_hash)
next
  fix u assume "AuthService_validateUser e db em pass = Inr (Some u)"
  then have "\<exists>x. u = omit_passwordHash x"
    by (rule validateUser_result_omits)
  then show "\<not> has_property u ''passwordHash''"
    by (auto simp: omit_no_hash)
next
  fix r assume r: "AuthController_login e db loginDto = Inr r"
  show "\<not> has_property r ''passwordHash''"
  proof (cases "AuthService_validateUser e db (login_email loginDto) (login_password loginDto)")
    case (Inl ex)
    with r show ?thesis by (simp add: AuthController_login_def)
  next
    case (Inr v)
    with r show ?thesis
      by (cases v)
         (auto simp: AuthController_login_def AuthService_login_def has_property_def
           split: if_splits)
  qed
qed

theorem passwordHash_never_returned_witness:
  "has_property ann ''passwordHash'' \<and> has_property bob ''passwordHash'' \<and>
   (\<exists>a b. UsersController_findAll db0 = Inr [a, b] \<and>
      has_property a ''email'' \<and> \<not> has_property a ''passwordHash'' \<and>
      has_property b ''email'' \<and> \<not> has_property b ''passwordHash'') \<and>
   (\<exists>u. UsersController_findOne db0 bob_id = Inr u \<and>
      has_property u ''email'' \<and> \<not> has_property u ''passwordHash'') \<and>
   (\<exists>u. UsersController_getProfile db0 ann_admin = Inr u \<and>
      has_property u ''email'' \<and> \<not> has_property u ''passwordHash'') \<and>
   (\<exists>u. fst (UsersService_create env0 db0 cyd_dto) = Inr u \<and>
      has_property u ''email'' \<and> \<not> has_property u ''passwordHash'') \<and>
   (\<exists>u. fst (UsersService_update env0 db0 bob_id [(''password'', JStr ''new-secret'')]) = Inr u \<and>
      has_property u ''email'' \<and> \<not> has_property u ''passwordHash'') \<and>
   (\<exists>u. AuthService_validateUser env0 db0 ''ann@x.io'' ''secret-ann'' = Inr (Some u) \<and>
      has_property u ''email'' \<and> \<not> has_property u ''passwordHash'') \<and>
   (\<exists>r. AuthController_login env0 db0
           \<lparr>login_email = ''ann@x.io'', login_password = ''secret-ann''\<rparr> = Inr r \<and>
      has_property r ''access_token'' \<and> \<not> has_property r ''passwordHash'')"
proof -
  have computed: ?thesis
    by (simp add: example_defs store_defs service_defs has_property_def Let_def
        UsersController_findAll_def UsersController_findOne_def UsersController_getProfile_def
        ParseUUIDPipe_def AuthService_validateUser_def AuthController_login_def
        AuthService_login_def jwt_claims_def)
  from passwordHash_never_returned [where db = db0 and uid = bob_id and req_user = ann_admin
      and e = env0 and createUserDto = cyd_dto
      and updateUserDto = "[(''password'', JStr ''new-secret'')]"
      and em = "''ann@x.io''" and pass = "''secret-ann''"
      and loginDto = "\<lparr>login_email = ''ann@x.io'', login_password = ''secret-ann''\<rparr>"]
    computed
  show ?thesis by simp
qed


section \<open>Registration when the store fails\<close>

text \<open>
  C8. POST /auth/register while the store refuses the put: \<open>UsersService.create\<close> throws
  the internal error "Could not create user.", and the controller's handler answers 201
  with an empty body.
\<close>

theorem register_internal_failure_answers_201_empty:
  "fst (UsersService_create env0 db_put_down cyd_dto) =
     Inl (InternalServerErrorException ''Could not create user.'') \<and>
   respond 201 (fst (AuthController_register env0 db_put_down cyd_dto)) =
     HttpResponse 201 EmptyBody \<and>
   snd (AuthController_register env0 db_put_down cyd_dto) = db_put_down"
  by (simp add: example_defs store_defs service_defs AuthController_register_def
      AuthService_register_def)

section \<open>Deleting a user\<close>

lemma example_bad_id:
  "\<not> isUUID ''42''" "ann_id \<noteq> ''42''" "bob_id \<noteq> ''42''" "''42'' \<noteq> ann_id" "''42'' \<noteq> bob_id"
  by (simp_all add: isUUID_def ann_id_def bob_id_def)

text \<open>
  C9, as the code has it.  DELETE /users/:id by an authenticated admin: an id that is
  not a UUID is answered 400; a UUID that is the caller's own id is answered 403; for
  another UUID, a store that fails the delete gives 500, a store that has no record with
  that id gives 404, and in all these cases the store is unchanged; otherwise the answer
  is 204 with an empty body, the record is gone and every other record is still there.
\<close>

theorem delete_user_responses:
  assumes "JwtStrategy_validate db token = Inr admin" and "auth_role admin = ADMIN"
  shows
  "(\<not> isUUID uid \<longrightarrow>
      DELETE_users_id db token uid =
        (Inl (BadRequestException ''Validation failed (uuid is expected)''), db)) \<and>
   (isUUID uid \<and> uid = userId admin \<longrightarrow>
      DELETE_users_id db token uid =
        (Inl (ForbiddenException ''Admins cannot delete their own account.''), db)) \<and>
   (isUUID uid \<and> uid \<noteq> userId admin \<and> unavailable db DeleteCommand \<longrightarrow>
      DELETE_users_id db token uid =
        (Inl (InternalServerErrorException ''Could not delete user.''), db)) \<and>
   (isUUID uid \<and> uid \<noteq> userId admin \<and> \<not> unavailable db DeleteCommand \<and>
    get_item (table db) uid = None \<longrightarrow>
      DELETE_users_id db token uid =
        (Inl (NotFoundException (not_found_msg uid '' not found.'')), db)) \<and>
   (isUUID uid \<and> uid \<noteq> userId admin \<and> \<not> unavailable db DeleteCommand \<and>
    get_item (table db) uid \<noteq> None \<longrightarrow>
      (\<exists>db'. DELETE_users_id db token uid = (Inr (), db') \<and>
         get_item (table db') uid = None \<and>
         (\<forall>k. k \<noteq> uid \<longrightarrow> get_item (table db') k = get_item (table db) k) \<and>
         unavailable db' = unavailable db) \<and>
      respond 204 (void_result (fst (DELETE_users_id db token uid))) =
        HttpResponse 204 EmptyBody)"
proof -
  from assms have guards: "admin_guards db token = Inr admin"
    by (simp add: admin_guards_def RolesGuard_canActivate_def)
  show ?thesis
    by (auto simp: DELETE_users_id_def guards UsersController_remove_def ParseUUIDPipe_def
        UsersService_remove_def send_delete_def void_result_def get_item_filter_other
        get_item_filter_same)
qed

theorem delete_user_responses_witness:
  "JwtStrategy_validate db0 ann_token = Inr ann_admin \<and> auth_role ann_admin = ADMIN \<and>
   userId ann_admin = ann_id \<and> \<not> isUUID ''42'' \<and> isUUID ann_id \<and> isUUID zed_id \<and>
   isUUID bob_id \<and>
   get_item (table db0) zed_id = None \<and> get_item (table db0) bob_id = Some bob \<and>
   respond 204 (void_result (fst (DELETE_users_id db0 ann_token ''42''))) =
     HttpResponse 400 (Message ''Validation failed (uuid is expected)'') \<and>
   respond 204 (void_result (fst (DELETE_users_id db0 ann_token ann_id))) =
     HttpResponse 403 (Message ''Admins cannot delete their own account.'') \<and>
   respond 204 (void_result (fst (DELETE_users_id db_delete_down ann_token bob_id))) =
     HttpResponse 500 (Message ''Could not delete user.'') \<and>
   respond 204 (void_result (fst (DELETE_users_id db0 ann_token zed_id))) =
     HttpResponse 404 (Message (not_found_msg zed_id '' not found.'')) \<and>
   snd (DELETE_users_id db0 ann_token zed_id) = db0 \<and>
   respond 204 (void_result (fst (DELETE_users_id db0 ann_token bob_id))) =
     HttpResponse 204 EmptyBody \<and>
   get_item (table (snd (DELETE_users_id db0 ann_token bob_id))) bob_id = None \<and>
   get_item (table (snd (DELETE_users_id db0 ann_token bob_id))) ann_id = Some ann"
proof -
  have v: "JwtStrategy_validate db0 ann_token = Inr ann_admin"
    and v': "JwtStrategy_validate db_delete_down ann_token = Inr ann_admin"
    by (simp_all add: example_defs store_defs service_defs guard_defs)
  have r: "auth_role ann_admin = ADMIN" by (simp add: ann_admin_def)
  have n: "\<not> isUUID ''42''" by (rule example_bad_id)
  have computed: ?thesis
    by (simp add: example_defs store_defs service_defs guard_defs DELETE_users_id_def
        UsersController_remove_def ParseUUIDPipe_def void_result_def example_bad_id)
  from delete_user_responses [OF v r, of "''42''"] delete_user_responses [OF v r, of ann_id]
    delete_user_responses [OF v' r, of bob_id] delete_user_responses [OF v r, of zed_id]
    delete_user_responses [OF v r, of bob_id] v r n computed
  show ?thesis by simp
qed

text \<open>
  Where the claim as stated fails: the caller is an authenticated admin, the target is
  another user's record that exists, the store fails the delete, and the answer is 500
  with the record still in the table, neither 404 nor 204; and an id that is not a UUID
  is answered 400.
\<close>

theorem delete_user_counterexample:
  "JwtStrategy_validate db_delete_down ann_token = Inr ann_admin \<and> auth_role ann_admin = ADMIN \<and>
   bob_id \<noteq> userId ann_admin \<and> get_item (table db_delete_down) bob_id = Some bob \<and>
   respond 204 (void_result (fst (DELETE_users_id db_delete_down ann_token bob_id))) =
     HttpResponse 500 (Message ''Could not delete user.'') \<and>
   get_item (table (snd (DELETE_users_id db_delete_down ann_token bob_id))) bob_id = Some bob \<and>
   ''42'' \<noteq> userId ann_admin \<and> get_item (table db0) ''42'' = None \<and>
   respond 204 (void_result (fst (DELETE_users_id db0 ann_token ''42''))) =
     HttpResponse 400 (Message ''Validation failed (uuid is expected)'')"
  by (simp add: example_defs store_defs service_defs guard_defs DELETE_users_id_def
      UsersController_remove_def ParseUUIDPipe_def void_result_def example_bad_id)

section \<open>Updating one's own record as an admin\<close>

text \<open>
  C2. PATCH /users/:id by the admin Ann on the admin's own id, a UUID, with the body
  \<open>{firstName: "Annie"}\<close>: the guards let the request pass, the body passes validation and
  touches neither the role nor the disabled flag, the id passes the UUID pipe, and the
  handler answers 403 and leaves the store as it was, because the absent \<open>role\<close> is not
  \<open>ADMIN\<close>.
\<close>

theorem self_update_of_firstName_is_refused:
  "admin_guards db0 ann_token = Inr ann_admin \<and> userId ann_admin = ann_id \<and>
   ValidationPipe env0 UpdateUserDto_keys (validate_UpdateUserDto env0)
       [(''firstName'', JStr ''Annie'')] = Inr [(''firstName'', JStr ''Annie'')] \<and>
   ParseUUIDPipe ann_id = Inr ann_id \<and>
   PATCH_users_id env0 db0 ann_token ann_id [(''firstName'', JStr ''Annie'')] =
     (Inl (ForbiddenException ''Admins cannot change their own role or disable themselves.''), db0) \<and>
   respond 200 (value_result (fst
       (PATCH_users_id env0 db0 ann_token ann_id [(''firstName'', JStr ''Annie'')]))) =
     HttpResponse 403 (Message ''Admins cannot change their own role or disable themselves.'')"
  by (simp add: example_defs store_defs service_defs guard_defs pipe_defs PATCH_users_id_def
      UsersController_update_def value_result_def)

section \<open>Login failures\<close>

text \<open>
  C6, as the code has it.  POST /auth/login with a body that passes the validation of
  \<open>LoginDto\<close>: a request for an email that the lookup does not find and a request with
  a wrong password for an existing enabled account get the same response, 401 with the
  message "Invalid credentials"; a request for a disabled account gets 401 with the
  message "Account has been disabled. Try again later.".  A body that fails the
  validation is answered 400.
\<close>

theorem login_failure_messages:
  "(ValidationPipe e LoginDto_keys (validate_LoginDto e) absent = Inr a \<and>
    findOneByEmail e db (login_email (to_LoginDto a)) = None \<and>
    ValidationPipe e LoginDto_keys (validate_LoginDto e) wrong = Inr w \<and>
    findOneByEmail e db (login_email (to_LoginDto w)) = Some user \<and>
    \<not> truthy (getprop user ''isDisabled'') \<and> getprop user ''passwordHash'' = JStr h \<and>
    \<not> bcrypt_compare e (login_password (to_LoginDto w)) h \<longrightarrow>
      respond 200 (value_result (POST_auth_login e db wrong)) =
        respond 200 (value_result (POST_auth_login e db absent)) \<and>
      respond 200 (value_result (POST_auth_login e db absent)) =
        HttpResponse 401 (Message ''Invalid credentials'')) \<and>
   (ValidationPipe e LoginDto_keys (validate_LoginDto e) off = Inr d \<and>
    findOneByEmail e db (login_email (to_LoginDto d)) = Some user' \<and>
    truthy (getprop user' ''isDisabled'') \<longrightarrow>
      respond 200 (value_result (POST_auth_login e db off)) =
        HttpResponse 401 (Message ''Account has been disabled. Try again later.'')) \<and>
   (\<not> validate_LoginDto e (whitelist LoginDto_keys body) \<longrightarrow>
      respond 200 (value_result (POST_auth_login e db body)) =
        HttpResponse 400 (Message (validation_message e LoginDto_keys body)))"
  by (simp add: POST_auth_login_def AuthController_login_def AuthService_validateUser_def
      value_result_def ValidationPipe_def)

theorem login_failure_messages_witness:
  "ValidationPipe env0 LoginDto_keys (validate_LoginDto env0)
     [(''email'', JStr ''zed@x.io''), (''password'', JStr ''secret-zed'')] =
     Inr [(''email'', JStr ''zed@x.io''), (''password'', JStr ''secret-zed'')] \<and>
   findOneByEmail env0 db0 ''zed@x.io'' = None \<and> findOneByEmail env0 db0 ''Ann@x.io'' = Some ann \<and>
   \<not> truthy (getprop ann ''isDisabled'') \<and> getprop ann ''passwordHash'' = JStr ''#secret-ann'' \<and>
   \<not> bcrypt_compare env0 ''secret-bob'' ''#secret-ann'' \<and>
   findOneByEmail env0 db0 ''bob@x.io'' = Some bob \<and> truthy (getprop bob ''isDisabled'') \<and>
   respond 200 (value_result (POST_auth_login env0 db0
       [(''email'', JStr ''Ann@x.io''), (''password'', JStr ''secret-bob'')])) =
     HttpResponse 401 (Message ''Invalid credentials'') \<and>
   respond 200 (value_result (POST_auth_login env0 db0
       [(''email'', JStr ''zed@x.io''), (''password'', JStr ''secret-zed'')])) =
     HttpResponse 401 (Message ''Invalid credentials'') \<and>
   respond 200 (value_result (POST_auth_login env0 db0
       [(''email'', JStr ''bob@x.io''), (''password'', JStr ''secret-bob'')])) =
     HttpResponse 401 (Message ''Account has been disabled. Try again later.'') \<and>
   \<not> validate_LoginDto env0 (whitelist LoginDto_keys
       [(''email'', JStr ''ann@x.io''), (''password'', JStr ''wrong'')]) \<and>
   respond 200 (value_result (POST_auth_login env0 db0
       [(''email'', JStr ''ann@x.io''), (''password'', JStr ''wrong'')])) =
     HttpResponse 400 (Message ''Bad Request'')"
proof -
  have computed: ?thesis
    by (simp add: example_defs store_defs service_defs pipe_defs POST_auth_login_def
        AuthController_login_def AuthService_validateUser_def value_result_def)
  from login_failure_messages [where db = db0 and e = env0 and user = ann and user' = bob
      and h = "''#secret-ann''"
      and absent = "[(''email'', JStr ''zed@x.io''), (''password'', JStr ''secret-zed'')]"
      and a = "[(''email'', JStr ''zed@x.io''), (''password'', JStr ''secret-zed'')]"
      and wrong = "[(''email'', JStr ''Ann@x.io''), (''password'', JStr ''secret-bob'')]"
      and w = "[(''email'', JStr ''Ann@x.io''), (''password'', JStr ''secret-bob'')]"
      and off = "[(''email'', JStr ''bob@x.io''), (''password'', JStr ''secret-bob'')]"
      and d = "[(''email'', JStr ''bob@x.io''), (''password'', JStr ''secret-bob'')]"
      and body = "[(''email'', JStr ''ann@x.io''), (''password'', JStr ''wrong'')]"]
    computed
  show ?thesis by simp
qed

text \<open>
  Where the claim as stated fails: Ann's account exists and is enabled, the password
  "wrong" does not match the stored hash, and the request is answered 400 by the validation of \<open>LoginDto\<close>
  (the password is shorter than 8), not 401 "Invalid credentials".
\<close>

theorem login_failure_counterexample:
  "findOneByEmail env0 db0 ''ann@x.io'' = Some ann \<and> \<not> truthy (getprop ann ''isDisabled'') \<and>
   getprop ann ''passwordHash'' = JStr ''#secret-ann'' \<and>
   \<not> bcrypt_compare env0 ''wrong'' ''#secret-ann'' \<and>
   \<not> MinLength env0 8 (JStr ''wrong'') \<and>
   respond 200 (value_result (POST_auth_login env0 db0
       [(''email'', JStr ''ann@x.io''), (''password'', JStr ''wrong'')])) =
     HttpResponse 400 (Message (validation_message env0 LoginDto_keys
       [(''email'', JStr ''ann@x.io''), (''password'', JStr ''wrong'')])) \<and>
   respond 200 (value_result (POST_auth_login env0 db0
       [(''email'', JStr ''ann@x.io''), (''password'', JStr ''wrong'')])) \<noteq>
     HttpResponse 401 (Message ''Invalid credentials'')"
  by (simp add: example_defs store_defs service_defs pipe_defs POST_auth_login_def
      value_result_def)

section \<open>Email uniqueness\<close>











section \<open>The update expression that UsersService.update builds\<close>

lemma update_entry_applied:
  assumes "applied_entry (k, v)"
  shows "update_entry (k, v) (expr, vals, names) =
    (expr @ [clause_of (k, v)], AList.update ('':'' @ k) v vals,
     (if k = ''role'' then AList.update ''#rl'' ''role'' names
      else if k = ''isDisabled'' then AList.update ''#disabled'' ''isDisabled'' names
      else names))"
  using assms
  by (simp add: update_entry_def applied_entry_def clause_of_def placeholder_def Let_def)

lemma update_entry_skipped:
  assumes "\<not> applied_entry kv"
  shows "update_entry kv acc = acc"
  using assms
  by (cases kv; cases acc) (auto simp: update_entry_def applied_entry_def)

lemma fold_skip_all:
  "\<not> list_ex applied_entry dto \<Longrightarrow> fold update_entry dto acc = acc"
  by (induction dto arbitrary: acc) (simp_all add: update_entry_skipped)

lemma fold_expr:
  "fst (fold update_entry dto (expr, vals, names)) = expr @ map clause_of (filter applied_entry dto)"
proof (induction dto arbitrary: expr vals names)
  case Nil
  then show ?case by simp
next
  case (Cons kv dto)
  obtain k v where kv: "kv = (k, v)" by (cases kv)
  show ?case
  proof (cases "applied_entry kv")
    case True
    with kv Cons.IH show ?thesis by (simp add: update_entry_applied)
  next
    case False
    with Cons.IH show ?thesis by (simp add: update_entry_skipped)
  qed
qed

lemma fold_names:
  "map_of (snd (snd (fold update_entry dto (expr, vals, names)))) x =
     (if x = ''#rl'' \<and> list_ex (\<lambda>kv. applied_entry kv \<and> fst kv = ''role'') dto
        then Some ''role''
      else if x = ''#disabled'' \<and> list_ex (\<lambda>kv. applied_entry kv \<and> fst kv = ''isDisabled'') dto
        then Some ''isDisabled''
      else map_of names x)"
proof (induction dto arbitrary: expr vals names)
  case Nil
  then show ?case by simp
next
  case (Cons kv dto)
  obtain k v where kv: "kv = (k, v)" by (cases kv)
  show ?case
  proof (cases "applied_entry kv")
    case True
    with kv Cons.IH show ?thesis
      by (auto simp: update_entry_applied AList.update_conv')
  next
    case False
    with Cons.IH show ?thesis by (simp add: update_entry_skipped)
  qed
qed

lemma fold_vals_keys:
  "fst ` set (fst (snd (fold update_entry dto (expr, vals, names)))) =
     fst ` set vals \<union> (\<lambda>kv. '':'' @ fst kv) ` set (filter applied_entry dto)"
proof (induction dto arbitrary: expr vals names)
  case Nil
  then show ?case by simp
next
  case (Cons kv dto)
  obtain k v where kv: "kv = (k, v)" by (cases kv)
  show ?case
  proof (cases "applied_entry kv")
    case True
    with kv Cons.IH show ?thesis
      by (auto simp: update_entry_applied AList.dom_update)
  next
    case False
    with Cons.IH show ?thesis by (simp add: update_entry_skipped)
  qed
qed

lemma fold_vals_other:
  "x \<notin> (\<lambda>kv. '':'' @ fst kv) ` set dto \<Longrightarrow>
   map_of (fst (snd (fold update_entry dto (expr, vals, names)))) x = map_of vals x"
proof (induction dto arbitrary: expr vals names)
  case Nil
  then show ?case by simp
next
  case (Cons kv dto)
  obtain k v where kv: "kv = (k, v)" by (cases kv)
  show ?case
  proof (cases "applied_entry kv")
    case True
    with kv Cons show ?thesis
      by (simp add: update_entry_applied AList.update_conv')
  next
    case False
    with Cons show ?thesis by (simp add: update_entry_skipped)
  qed
qed

lemma apply_set_frame:
  "k \<notin> (\<lambda>c. attribute_name names (fst c)) ` set cs \<Longrightarrow>
   map_of (apply_set names vals cs it) k = map_of it k"
proof (induction cs arbitrary: it)
  case Nil
  then show ?case by simp
next
  case (Cons c cs)
  obtain n vk where c: "c = (n, vk)" by (cases c)
  with Cons show ?case by (simp add: AList.update_conv')
qed

lemma declared_keys:
  assumes "fst ` set dto \<subseteq> set UpdateUserDto_keys"
  shows "''#rl'' \<notin> fst ` set dto" "''#disabled'' \<notin> fst ` set dto" "''ua'' \<notin> fst ` set dto"
    "''updatedAt'' \<notin> fst ` set dto" "''passwordHash'' \<notin> fst ` set dto"
    "''userId'' \<notin> fst ` set dto"
proof -
  have "''#rl'' \<notin> set UpdateUserDto_keys" "''#disabled'' \<notin> set UpdateUserDto_keys"
    "''ua'' \<notin> set UpdateUserDto_keys" "''updatedAt'' \<notin> set UpdateUserDto_keys"
    "''passwordHash'' \<notin> set UpdateUserDto_keys" "''userId'' \<notin> set UpdateUserDto_keys"
    by (simp_all add: UpdateUserDto_keys_def)
  with assms show "''#rl'' \<notin> fst ` set dto" "''#disabled'' \<notin> fst ` set dto"
    "''ua'' \<notin> fst ` set dto" "''updatedAt'' \<notin> fst ` set dto"
    "''passwordHash'' \<notin> fst ` set dto" "''userId'' \<notin> fst ` set dto"
    by blast+
qed

lemma plain_attribute:
  assumes "x \<noteq> ''#rl''" and "x \<noteq> ''#disabled''"
  shows "attribute_name (snd (snd (fold update_entry dto (expr, vals, [])))) x = x"
  using assms by (simp add: attribute_name_def fold_names)

lemma clause_target:
  assumes "''#rl'' \<notin> fst ` set dto" and "''#disabled'' \<notin> fst ` set dto"
    and "kv \<in> set dto" and "applied_entry kv"
  shows "attribute_name (snd (snd (fold update_entry dto (expr, vals, [])))) (fst (clause_of kv))
           = fst kv"
proof -
  from assms(3) have "fst kv \<in> fst ` set dto" by (rule imageI)
  with assms(1,2) have ne: "fst kv \<noteq> ''#rl''" "fst kv \<noteq> ''#disabled''" by metis+
  consider "fst kv = ''isDisabled''" | "fst kv = ''role''"
    | "fst kv \<noteq> ''isDisabled''" "fst kv \<noteq> ''role''" by blast
  then show ?thesis
  proof cases
    case 1
    with assms(3,4) have "list_ex (\<lambda>kv. applied_entry kv \<and> fst kv = ''isDisabled'') dto"
      by (auto simp: list_ex_iff)
    with 1 show ?thesis
      by (simp add: attribute_name_def fold_names clause_of_def placeholder_def)
  next
    case 2
    with assms(3,4) have "list_ex (\<lambda>kv. applied_entry kv \<and> fst kv = ''role'') dto"
      by (auto simp: list_ex_iff)
    with 2 show ?thesis
      by (simp add: attribute_name_def fold_names clause_of_def placeholder_def)
  next
    case 3
    with ne show ?thesis
      by (simp add: attribute_name_def fold_names clause_of_def placeholder_def)
  qed
qed

lemma hash_password_cases:
  assumes "hash_password e pw (expr, vals, names) = Inr (expr', vals', names')"
  shows "names' = names \<and>
    ((\<not> truthy pw \<and> expr' = expr \<and> vals' = vals) \<or>
     (truthy pw \<and> expr' = expr @ [(''passwordHash'', '':ph'')] \<and>
      (\<exists>h. vals' = AList.update '':ph'' h vals)))"
  using assms
  by (cases pw) (auto simp: hash_password_def split: if_splits)

lemma fold_vals_count:
  assumes "''ua'' \<notin> fst ` set dto"
  shows "length (fst (snd (fold update_entry dto (update_init e)))) \<le> 1 \<longleftrightarrow>
         \<not> list_ex applied_entry dto"
proof
  assume "\<not> list_ex applied_entry dto"
  then show "length (fst (snd (fold update_entry dto (update_init e)))) \<le> 1"
    by (simp add: fold_skip_all update_init_def)
next
  let ?V = "fst (snd (fold update_entry dto (update_init e)))"
  assume short: "length ?V \<le> 1"
  show "\<not> list_ex applied_entry dto"
  proof
    assume "list_ex applied_entry dto"
    then obtain kv where kv: "kv \<in> set dto" "applied_entry kv"
      by (auto simp: list_ex_iff)
    from kv(1) have "fst kv \<in> fst ` set dto" by (rule imageI)
    with assms have "fst kv \<noteq> ''ua''" by metis
    then have ne: "'':'' @ fst kv \<noteq> '':ua''" by simp
    have keys: "fst ` set ?V = insert '':ua'' ((\<lambda>kv. '':'' @ fst kv) ` set (filter applied_entry dto))"
      by (simp add: update_init_def fold_vals_keys)
    with kv have "{'':ua'', '':'' @ fst kv} \<subseteq> fst ` set ?V" by auto
    then have "card {'':ua'', '':'' @ fst kv} \<le> card (fst ` set ?V)"
      by (intro card_mono) auto
    also have "\<dots> \<le> card (set ?V)" by (rule card_image_le) simp
    also have "\<dots> \<le> length ?V" by (rule card_length)
    finally have "2 \<le> length ?V" using ne by simp
    with short show False by simp
  qed
qed

lemma update_function:
  assumes keys: "fst ` set dto \<subseteq> set UpdateUserDto_keys"
    and h: "hash_password e (getprop dto ''password'') (fold update_entry dto (update_init e)) =
            Inr (expr, vals, names)"
  shows "k \<notin> fst ` set dto \<Longrightarrow> k \<noteq> ''updatedAt'' \<Longrightarrow>
           (k = ''passwordHash'' \<Longrightarrow> \<not> truthy (getprop dto ''password'')) \<Longrightarrow>
           map_of (apply_set names vals expr x) k = map_of x k"
    and "map_of (apply_set names vals expr x) ''updatedAt'' = Some (JStr (now e))"
    and "length vals \<le> 1 \<and> \<not> truthy (getprop dto ''password'') \<longleftrightarrow> \<not> carries_update dto"
proof -
  let ?pw = "getprop dto ''password''"
  let ?rest = "map clause_of (filter applied_entry dto)"
  obtain E V N where f: "fold update_entry dto (update_init e) = (E, V, N)"
    by (cases "fold update_entry dto (update_init e)")
  from f have E: "E = (''updatedAt'', '':ua'') # ?rest"
    using fold_expr [of dto "[(''updatedAt'', '':ua'')]" "[('':ua'', JStr (now e))]" "[]"]
    by (simp add: update_init_def)
  from f have N: "N = snd (snd (fold update_entry dto
      ([(''updatedAt'', '':ua'')], [('':ua'', JStr (now e))], [])))"
    and V: "V = fst (snd (fold update_entry dto
      ([(''updatedAt'', '':ua'')], [('':ua'', JStr (now e))], [])))"
    by (simp_all add: update_init_def)
  from h f have hc: "names = N \<and>
    ((\<not> truthy ?pw \<and> expr = E \<and> vals = V) \<or>
     (truthy ?pw \<and> expr = E @ [(''passwordHash'', '':ph'')] \<and>
      (\<exists>h. vals = AList.update '':ph'' h V)))"
    using hash_password_cases [of e ?pw E V N expr vals names] by simp
  note dk = declared_keys [OF keys]
  have rest_targets: "(\<lambda>c. attribute_name N (fst c)) ` set ?rest \<subseteq> fst ` set dto"
  proof
    fix t assume "t \<in> (\<lambda>c. attribute_name N (fst c)) ` set ?rest"
    then obtain kv where kv: "kv \<in> set dto" "applied_entry kv"
      and t: "t = attribute_name N (fst (clause_of kv))" by auto
    from clause_target [OF dk(1,2) kv] t kv(1) show "t \<in> fst ` set dto"
      unfolding N by simp
  qed
  have at_stamp: "attribute_name N ''updatedAt'' = ''updatedAt''"
    and at_hash: "attribute_name N ''passwordHash'' = ''passwordHash''"
    unfolding N by (simp_all add: plain_attribute)
  obtain tail where expr: "expr = (''updatedAt'', '':ua'') # tail"
    and tail: "(\<lambda>c. attribute_name N (fst c)) ` set tail \<subseteq>
        fst ` set dto \<union> (if truthy ?pw then {''passwordHash''} else {})"
  proof (cases "truthy ?pw")
    case True
    with hc E have "expr = (''updatedAt'', '':ua'') # (?rest @ [(''passwordHash'', '':ph'')])"
      by simp
    moreover have "(\<lambda>c. attribute_name N (fst c)) ` set (?rest @ [(''passwordHash'', '':ph'')]) \<subseteq>
        fst ` set dto \<union> (if truthy ?pw then {''passwordHash''} else {})"
      using rest_targets True at_hash by auto
    ultimately show ?thesis by (rule that)
  next
    case False
    with hc E have "expr = (''updatedAt'', '':ua'') # ?rest" by auto
    moreover have "(\<lambda>c. attribute_name N (fst c)) ` set ?rest \<subseteq>
        fst ` set dto \<union> (if truthy ?pw then {''passwordHash''} else {})"
      using rest_targets by auto
    ultimately show ?thesis by (rule that)
  qed
  from hc have names: "names = N" by simp
  have stamp_value: "getprop vals '':ua'' = JStr (now e)"
  proof -
    from dk(3) have "'':ua'' \<notin> (\<lambda>kv. '':'' @ fst kv) ` set dto" by auto
    then have "map_of V '':ua'' = Some (JStr (now e))"
      unfolding V by (simp add: fold_vals_other)
    moreover from hc have "map_of vals '':ua'' = map_of V '':ua''"
      by (auto simp: AList.update_conv')
    ultimately show ?thesis by (simp add: getprop_def)
  qed
  show "map_of (apply_set names vals expr x) ''updatedAt'' = Some (JStr (now e))"
  proof -
    have "''updatedAt'' \<notin> (\<lambda>c. attribute_name N (fst c)) ` set tail"
      using tail dk(4) by (auto split: if_splits)
    then have "map_of (apply_set N vals tail
        (AList.update ''updatedAt'' (getprop vals '':ua'') x)) ''updatedAt'' =
      map_of (AList.update ''updatedAt'' (getprop vals '':ua'') x) ''updatedAt''"
      by (rule apply_set_frame)
    then show ?thesis
      by (simp add: expr names at_stamp stamp_value AList.update_conv')
  qed
  show "map_of (apply_set names vals expr x) k = map_of x k"
    if "k \<notin> fst ` set dto" "k \<noteq> ''updatedAt''"
      "k = ''passwordHash'' \<Longrightarrow> \<not> truthy ?pw"
  proof -
    have "k \<notin> (\<lambda>c. attribute_name N (fst c)) ` set expr"
      using tail that at_stamp unfolding expr by (auto split: if_splits)
    then show ?thesis unfolding names by (rule apply_set_frame)
  qed
  show "length vals \<le> 1 \<and> \<not> truthy ?pw \<longleftrightarrow> \<not> carries_update dto"
  proof (cases "truthy ?pw")
    case True
    then show ?thesis by (simp add: carries_update_def)
  next
    case False
    with hc have "vals = fst (snd (fold update_entry dto (update_init e)))"
      using f by auto
    with False fold_vals_count [OF dk(3), of e] show ?thesis
      by (simp add: carries_update_def)
  qed
qed

lemma update_outcome:
  assumes keys: "fst ` set dto \<subseteq> set UpdateUserDto_keys"
  shows "(snd (UsersService_update e db uid dto) = db \<and>
          (carries_update dto \<longrightarrow> (\<forall>u. fst (UsersService_update e db uid dto) \<noteq> Inr u))) \<or>
         (\<exists>expr vals names it.
            hash_password e (getprop dto ''password'') (fold update_entry dto (update_init e)) =
              Inr (expr, vals, names) \<and>
            carries_update dto \<and> get_item (table db) uid = Some it \<and>
            UsersService_update e db uid dto =
              (Inr (omit_passwordHash (apply_set names vals expr it)),
               db\<lparr>table := map (\<lambda>x. if has_key uid x then apply_set names vals expr x else x)
                                (table db)\<rparr>))"
proof (cases "hash_password e (getprop dto ''password'') (fold update_entry dto (update_init e))")
  case (Inl ex)
  then show ?thesis by (simp add: UsersService_update_def)
next
  case hashed: (Inr acc)
  obtain expr vals names where acc: "acc = (expr, vals, names)" by (cases acc) auto
  note h = hashed [unfolded acc]
  note cond = update_function(3) [OF keys h]
  show ?thesis
  proof (cases "carries_update dto")
    case False
    with cond h show ?thesis
      by (cases "findOneByIdOrFail db uid") (simp_all add: UsersService_update_def)
  next
    case True
    with cond have nc: "\<not> (length vals \<le> 1 \<and> \<not> truthy (getprop dto ''password''))" by simp
    show ?thesis
    proof (cases "send_update db uid expr names vals")
      case (Inl err)
      with h nc show ?thesis
        by (cases err) (auto simp: UsersService_update_def)
    next
      case (Inr res)
      then obtain it where it: "get_item (table db) uid = Some it"
        and res: "res = (db\<lparr>table := map (\<lambda>x. if has_key uid x then apply_set names vals expr x
                                              else x) (table db)\<rparr>,
                         apply_set names vals expr it)"
        by (auto simp: send_update_def split: if_splits option.splits)
      from Inr res h nc have "UsersService_update e db uid dto =
          (Inr (omit_passwordHash (apply_set names vals expr it)),
           db\<lparr>table := map (\<lambda>x. if has_key uid x then apply_set names vals expr x else x)
                            (table db)\<rparr>)"
        by (auto simp: UsersService_update_def)
      with h True it show ?thesis by blast
    qed
  qed
qed

lemma update_succeeds:
  assumes keys: "fst ` set dto \<subseteq> set UpdateUserDto_keys"
    and valid: "validate_UpdateUserDto e dto"
    and it: "get_item (table db) uid = Some it"
    and up: "\<not> unavailable db UpdateCommand"
    and carries: "carries_update dto"
    and long: "\<forall>s. getprop dto ''password'' = JStr s \<longrightarrow> 8 \<le> js_length e s"
  shows "\<exists>u. fst (UsersService_update e db uid dto) = Inr u"
proof -
  let ?pw = "getprop dto ''password''"
  obtain E V N where f: "fold update_entry dto (update_init e) = (E, V, N)"
    by (cases "fold update_entry dto (update_init e)")
  from valid have "IsOptional (\<lambda>v. IsString v \<and> MinLength e 8 v) ?pw"
    by (simp add: validate_UpdateUserDto_def)
  with long have "\<exists>acc. hash_password e ?pw (E, V, N) = Inr acc"
    by (cases ?pw) (auto simp: hash_password_def)
  then obtain expr vals names where h: "hash_password e ?pw
      (fold update_entry dto (update_init e)) = Inr (expr, vals, names)"
    unfolding f by (metis prod_cases3)
  from update_function(3) [OF keys h] carries
  have nc: "\<not> (length vals \<le> 1 \<and> \<not> truthy ?pw)" by simp
  from it up have "\<exists>res. send_update db uid expr names vals = Inr res"
    by (simp add: send_update_def)
  then obtain db' attrs where "send_update db uid expr names vals = Inr (db', attrs)"
    by (metis prod.exhaust)
  with h nc show ?thesis
    by (auto simp: UsersService_update_def)
qed

lemma pipe_keys:
  assumes "ValidationPipe e keys valid body = Inr dto"
  shows "fst ` set dto \<subseteq> set keys" and "valid dto"
  using assms by (auto simp: ValidationPipe_def whitelist_def split: if_splits)

section \<open>Partial update\<close>

text \<open>
  C3, as the code has it.  For a payload that passes the validation of \<open>UpdateUserDto\<close>,
  applied by \<open>UsersService.update\<close> to an existing user: the record is still there, and
  every field that the payload omits keeps its stored value (the stored \<open>passwordHash\<close>
  going with the payload's \<open>password\<close>); every other record is as it was.  When the
  payload carries an update and the call succeeds, \<open>updatedAt\<close> is the time of the
  update; it succeeds when the store serves the update and the password, if any, has
  8 characters.  When the payload carries no update, the store is unchanged, \<open>updatedAt\<close>
  included.
\<close>

theorem update_keeps_omitted_fields:
  assumes "ValidationPipe e UpdateUserDto_keys (validate_UpdateUserDto e) body = Inr dto"
    and "get_item (table db) uid = Some user"
  shows
  "(\<exists>user'. get_item (table (snd (UsersService_update e db uid dto))) uid = Some user' \<and>
      (\<forall>k. k \<notin> fst ` set dto \<and> k \<noteq> ''updatedAt'' \<and>
           (k = ''passwordHash'' \<longrightarrow> ''password'' \<notin> fst ` set dto) \<longrightarrow>
           map_of user' k = map_of user k) \<and>
      (carries_update dto \<and> (\<exists>u. fst (UsersService_update e db uid dto) = Inr u) \<longrightarrow>
           map_of user' ''updatedAt'' = Some (JStr (now e))) \<and>
      (\<not> carries_update dto \<longrightarrow> user' = user)) \<and>
   (\<forall>k. k \<noteq> uid \<longrightarrow>
      get_item (table (snd (UsersService_update e db uid dto))) k = get_item (table db) k) \<and>
   (\<not> carries_update dto \<longrightarrow> snd (UsersService_update e db uid dto) = db) \<and>
   (carries_update dto \<and> \<not> unavailable db UpdateCommand \<and>
    (\<forall>s. getprop dto ''password'' = JStr s \<longrightarrow> 8 \<le> js_length e s) \<longrightarrow>
      (\<exists>u. fst (UsersService_update e db uid dto) = Inr u))"
proof -
  note keys = pipe_keys(1) [OF assms(1)]
  note valid = pipe_keys(2) [OF assms(1)]
  note dk = declared_keys [OF keys]
  have success: "carries_update dto \<and> \<not> unavailable db UpdateCommand \<and>
      (\<forall>s. getprop dto ''password'' = JStr s \<longrightarrow> 8 \<le> js_length e s) \<longrightarrow>
      (\<exists>u. fst (UsersService_update e db uid dto) = Inr u)"
    using update_succeeds [OF keys valid assms(2)] by blast
  from update_outcome [OF keys, of e db uid] show ?thesis
  proof
    assume same: "snd (UsersService_update e db uid dto) = db \<and>
      (carries_update dto \<longrightarrow> (\<forall>u. fst (UsersService_update e db uid dto) \<noteq> Inr u))"
    with assms(2) success show ?thesis by auto
  next
    assume "\<exists>expr vals names it.
      hash_password e (getprop dto ''password'') (fold update_entry dto (update_init e)) =
        Inr (expr, vals, names) \<and>
      carries_update dto \<and> get_item (table db) uid = Some it \<and>
      UsersService_update e db uid dto =
        (Inr (omit_passwordHash (apply_set names vals expr it)),
         db\<lparr>table := map (\<lambda>x. if has_key uid x then apply_set names vals expr x else x)
                          (table db)\<rparr>)"
    then obtain expr vals names it where
      h: "hash_password e (getprop dto ''password'') (fold update_entry dto (update_init e)) =
        Inr (expr, vals, names)"
      and carries: "carries_update dto"
      and U: "UsersService_update e db uid dto =
        (Inr (omit_passwordHash (apply_set names vals expr it)),
         db\<lparr>table := map (\<lambda>x. if has_key uid x then apply_set names vals expr x else x)
                          (table db)\<rparr>)"
      by blast
    let ?F = "apply_set names vals expr"
    have key: "map_of (?F x) ''userId'' = map_of x ''userId''" for x
      using update_function(1) [OF keys h, of "''userId''" x] dk(6) by simp
    have at_uid: "get_item (table (snd (UsersService_update e db uid dto))) uid = Some (?F user)"
      using get_item_map [of uid ?F "table db"] key assms(2)
      by (simp add: U has_key_def)
    have others: "get_item (table (snd (UsersService_update e db uid dto))) k = get_item (table db) k"
      if "k \<noteq> uid" for k
      using get_item_map_other [OF that, of ?F "table db"] key by (simp add: U)
    have frame: "map_of (?F user) k = map_of user k"
      if "k \<notin> fst ` set dto \<and> k \<noteq> ''updatedAt'' \<and>
          (k = ''passwordHash'' \<longrightarrow> ''password'' \<notin> fst ` set dto)" for k
    proof -
      have "\<not> truthy (getprop dto ''password'')" if "''password'' \<notin> fst ` set dto"
      proof -
        from that have "map_of dto ''password'' = None"
          by (simp add: map_of_eq_None_iff)
        then show ?thesis by (simp add: getprop_def)
      qed
      with that show ?thesis
        using update_function(1) [OF keys h, of k user] by blast
    qed
    from at_uid frame update_function(2) [OF keys h, of user] others carries success
    show ?thesis by simp
  qed
qed

theorem update_keeps_omitted_fields_witness:
  "ValidationPipe env0 UpdateUserDto_keys (validate_UpdateUserDto env0)
     [(''firstName'', JStr ''Robert''), (''email'', JStr ''rob@x.io'')] =
     Inr [(''firstName'', JStr ''Robert'')] \<and>
   get_item (table db0) bob_id = Some bob \<and> carries_update [(''firstName'', JStr ''Robert'')] \<and>
   \<not> unavailable db0 UpdateCommand \<and>
   (\<exists>u. fst (UsersService_update env0 db0 bob_id [(''firstName'', JStr ''Robert'')]) = Inr u) \<and>
   (\<exists>user'. get_item (table (snd (UsersService_update env0 db0 bob_id
                [(''firstName'', JStr ''Robert'')]))) bob_id = Some user' \<and>
      getprop bob ''firstName'' = JStr ''Bob'' \<and> getprop user' ''firstName'' = JStr ''Robert'' \<and>
      getprop bob ''updatedAt'' = JStr ''t0'' \<and> getprop user' ''updatedAt'' = JStr (now env0) \<and>
      map_of user' ''email'' = map_of bob ''email'' \<and>
      map_of user' ''lastName'' = map_of bob ''lastName'' \<and>
      map_of user' ''role'' = map_of bob ''role'' \<and>
      map_of user' ''isDisabled'' = map_of bob ''isDisabled'' \<and>
      map_of user' ''passwordHash'' = map_of bob ''passwordHash'') \<and>
   get_item (table (snd (UsersService_update env0 db0 bob_id
                [(''firstName'', JStr ''Robert'')]))) ann_id = Some ann"
proof -
  have p: "ValidationPipe env0 UpdateUserDto_keys (validate_UpdateUserDto env0)
     [(''firstName'', JStr ''Robert''), (''email'', JStr ''rob@x.io'')] =
     Inr [(''firstName'', JStr ''Robert'')]"
    by (simp add: pipe_defs getprop_def)
  have g: "get_item (table db0) bob_id = Some bob"
    by (simp add: example_defs store_defs)
  have computed: ?thesis
    by (simp add: example_defs store_defs service_defs pipe_defs carries_update_def
        applied_entry_def Let_def AList.update_conv')
  from update_keeps_omitted_fields [OF p g] computed
  show ?thesis by simp
qed

text \<open>
  Where the claim as stated fails: the empty payload passes validation, Bob's record
  exists, the call succeeds with Bob's record as result, and the stored \<open>updatedAt\<close> is
  still the old time \<open>t0\<close>, not the time \<open>t1\<close> of the update.
\<close>

theorem update_empty_payload_counterexample:
  "ValidationPipe env0 UpdateUserDto_keys (validate_UpdateUserDto env0) [] = Inr [] \<and>
   get_item (table db0) bob_id = Some bob \<and> now env0 = ''t1'' \<and>
   UsersService_update env0 db0 bob_id [] = (Inr (omit_passwordHash bob), db0) \<and>
   map_option (\<lambda>u. getprop u ''updatedAt'')
     (get_item (table (snd (UsersService_update env0 db0 bob_id []))) bob_id) = Some (JStr ''t0'') \<and>
   JStr ''t0'' \<noteq> JStr (now env0)"
  by (simp add: example_defs store_defs service_defs pipe_defs)

section \<open>Updating one's own profile\<close>

lemma list_all2_map_self:
  assumes "\<And>x. x \<in> set xs \<Longrightarrow> P x (g x)"
  shows "list_all2 P xs (map g xs)"
  using assms by (induction xs) simp_all

lemma validate_userId:
  "JwtStrategy_validate db token = Inr req_user \<Longrightarrow> userId req_user = sub token"
  by (auto simp: JwtStrategy_validate_def split: option.splits if_splits)

text \<open>
  C10. PATCH /users/profile, whatever the token and the body: every stored record keeps
  every attribute other than \<open>firstName\<close>, \<open>lastName\<close>, \<open>avatarUrl\<close> and \<open>updatedAt\<close>,
  in particular \<open>role\<close>, \<open>email\<close>, \<open>isDisabled\<close>, \<open>userId\<close>, \<open>createdAt\<close> and
  \<open>passwordHash\<close>, and a record of another user than the caller is unchanged.
\<close>

theorem profile_update_frame:
  "list_all2
     (\<lambda>old new.
        (\<forall>k. k \<notin> {''firstName'', ''lastName'', ''avatarUrl'', ''updatedAt''} \<longrightarrow>
             map_of new k = map_of old k) \<and>
        getprop new ''role'' = getprop old ''role'' \<and>
        getprop new ''email'' = getprop old ''email'' \<and>
        getprop new ''isDisabled'' = getprop old ''isDisabled'' \<and>
        getprop new ''userId'' = getprop old ''userId'' \<and>
        getprop new ''createdAt'' = getprop old ''createdAt'' \<and>
        getprop new ''passwordHash'' = getprop old ''passwordHash'' \<and>
        (\<not> has_key (sub token) old \<longrightarrow> new = old))
     (table db) (table (snd (PATCH_users_profile e db token body)))"
proof -
  let ?P = "\<lambda>old new.
        (\<forall>k. k \<notin> {''firstName'', ''lastName'', ''avatarUrl'', ''updatedAt''} \<longrightarrow>
             map_of new k = map_of old k) \<and>
        getprop new ''role'' = getprop old ''role'' \<and>
        getprop new ''email'' = getprop old ''email'' \<and>
        getprop new ''isDisabled'' = getprop old ''isDisabled'' \<and>
        getprop new ''userId'' = getprop old ''userId'' \<and>
        getprop new ''createdAt'' = getprop old ''createdAt'' \<and>
        getprop new ''passwordHash'' = getprop old ''passwordHash'' \<and>
        (\<not> has_key (sub token) old \<longrightarrow> new = old)"
  have same: "list_all2 ?P (table db) (table db)"
    by (simp add: list_all2_same)
  show ?thesis
  proof (cases "JwtStrategy_validate db token")
    case (Inl ex)
    with same show ?thesis by (simp add: PATCH_users_profile_def)
  next
    case (Inr req_user)
    note caller = validate_userId [OF Inr]
    show ?thesis
    proof (cases "ValidationPipe e UpdateProfileDto_keys (validate_UpdateProfileDto e) body")
      case (Inl ex)
      with Inr same show ?thesis by (simp add: PATCH_users_profile_def)
    next
      case piped: (Inr dto)
      from pipe_keys(1) [OF piped] have pk: "fst ` set dto \<subseteq> set UpdateProfileDto_keys" .
      then have keys: "fst ` set dto \<subseteq> set UpdateUserDto_keys"
        by (auto simp: UpdateProfileDto_keys_def UpdateUserDto_keys_def)
      from pk have three: "fst ` set dto \<subseteq> {''firstName'', ''lastName'', ''avatarUrl''}"
        by (simp add: UpdateProfileDto_keys_def)
      have "''password'' \<notin> {''firstName'', ''lastName'', ''avatarUrl''}" by simp
      with three have "''password'' \<notin> fst ` set dto" by blast
      then have "map_of dto ''password'' = None" by (simp add: map_of_eq_None_iff)
      then have nopw: "\<not> truthy (getprop dto ''password'')" by (simp add: getprop_def)
      have route: "PATCH_users_profile e db token body = UsersService_update e db (sub token) dto"
        using Inr piped caller
        by (simp add: PATCH_users_profile_def UsersController_updateOwnProfile_def)
      from update_outcome [OF keys, of e db "sub token"] show ?thesis
      proof
        assume "snd (UsersService_update e db (sub token) dto) = db \<and>
          (carries_update dto \<longrightarrow> (\<forall>u. fst (UsersService_update e db (sub token) dto) \<noteq> Inr u))"
        with same route show ?thesis by simp
      next
        assume "\<exists>expr vals names it.
          hash_password e (getprop dto ''password'') (fold update_entry dto (update_init e)) =
            Inr (expr, vals, names) \<and>
          carries_update dto \<and> get_item (table db) (sub token) = Some it \<and>
          UsersService_update e db (sub token) dto =
            (Inr (omit_passwordHash (apply_set names vals expr it)),
             db\<lparr>table := map (\<lambda>x. if has_key (sub token) x then apply_set names vals expr x
                                   else x) (table db)\<rparr>)"
        then obtain expr vals names it where
          h: "hash_password e (getprop dto ''password'') (fold update_entry dto (update_init e)) =
            Inr (expr, vals, names)"
          and U: "UsersService_update e db (sub token) dto =
            (Inr (omit_passwordHash (apply_set names vals expr it)),
             db\<lparr>table := map (\<lambda>x. if has_key (sub token) x then apply_set names vals expr x
                                   else x) (table db)\<rparr>)"
          by blast
        let ?F = "apply_set names vals expr"
        have frame: "map_of (?F x) k = map_of x k"
          if "k \<notin> {''firstName'', ''lastName'', ''avatarUrl'', ''updatedAt''}" for k x
        proof -
          from that three have "k \<notin> fst ` set dto" and "k \<noteq> ''updatedAt''" by blast+
          with nopw show ?thesis
            using update_function(1) [OF keys h, of k x] by blast
        qed
        have "?P x (if has_key (sub token) x then ?F x else x)" for x
          by (simp add: frame getprop_def)
        then have "list_all2 ?P (table db)
            (map (\<lambda>x. if has_key (sub token) x then ?F x else x) (table db))"
          by (intro list_all2_map_self)
        with route U show ?thesis by simp
      qed
    qed
  qed
qed

theorem profile_update_frame_witness:
  "JwtStrategy_validate db0 ann_token = Inr ann_admin \<and>
   table (snd (PATCH_users_profile env0 db0 ann_token
      [(''firstName'', JStr ''Annie''), (''role'', JStr ''USER''), (''isDisabled'', JBool True),
       (''email'', JStr ''evil@x.io''), (''userId'', JStr zed_id), (''createdAt'', JStr ''t9''),
       (''passwordHash'', JStr ''#known''), (''password'', JStr ''known-secret'')])) =
     [[(''userId'', JStr ann_id), (''email'', JStr ''ann@x.io''),
       (''passwordHash'', JStr ''#secret-ann''), (''firstName'', JStr ''Annie''),
       (''lastName'', JStr ''Lee''), (''role'', JStr ''ADMIN''), (''isDisabled'', JBool False),
       (''createdAt'', JStr ''t0''), (''updatedAt'', JStr ''t1'')], bob] \<and>
   table db0 = [ann, bob] \<and> getprop ann ''firstName'' = JStr ''Ann'' \<and>
   getprop ann ''role'' = JStr ''ADMIN'' \<and> getprop ann ''email'' = JStr ''ann@x.io'' \<and>
   getprop ann ''isDisabled'' = JBool False \<and> getprop ann ''userId'' = JStr ann_id \<and>
   getprop ann ''createdAt'' = JStr ''t0'' \<and> getprop ann ''passwordHash'' = JStr ''#secret-ann''"
proof -
  have computed: ?thesis
    by (simp add: example_defs store_defs service_defs guard_defs pipe_defs Let_def
        PATCH_users_profile_def UsersController_updateOwnProfile_def)
  from profile_update_frame [of ann_token db0 env0
      "[(''firstName'', JStr ''Annie''), (''role'', JStr ''USER''), (''isDisabled'', JBool True),
       (''email'', JStr ''evil@x.io''), (''userId'', JStr zed_id), (''createdAt'', JStr ''t9''),
       (''passwordHash'', JStr ''#known''), (''password'', JStr ''known-secret'')]"]
    computed
  show ?thesis by simp
qed

end
